theory Spec2Isabelle
  imports Complex_Main "HOL-Library.Sublist"
begin

section \<open>Track download sidecar (services/tidal-downloader/app.py)\<close>

subsection \<open>Path sanitisation\<close>

text \<open>
  Python's \<open>name.replace(ch, "_")\<close> with a one-character pattern \<open>ch\<close>: every
  occurrence of \<open>ch\<close> is replaced by the replacement text.
\<close>

definition str_replace_char :: "char \<Rightarrow> string \<Rightarrow> string \<Rightarrow> string" where
  "str_replace_char ch new name = concat (map (\<lambda>c. if c = ch then new else [c]) name)"

text \<open>Python's \<open>s.strip(chars)\<close>: leading and trailing characters of \<open>chars\<close> are removed.\<close>

definition str_strip :: "string \<Rightarrow> string \<Rightarrow> string" where
  "str_strip chars s =
     rev (dropWhile (\<lambda>c. c \<in> set chars) (rev (dropWhile (\<lambda>c. c \<in> set chars) s)))"

text \<open>The characters \<open><>:"/\|?*\<close> the loop of \<open>_sanitize_path_component\<close> runs over, in its order.\<close>

definition invalid_chars :: string where
  "invalid_chars =
     [CHR ''<'', CHR ''>'', CHR '':'', CHR 0x22, CHR ''/'', CHR 0x5C, CHR ''|'', CHR ''?'', CHR ''*'']"

text \<open>
  \<^verbatim>\<open>
  def _sanitize_path_component(name):
      for ch in '<>:"/\\|?*':
          name = name.replace(ch, "_")
      return name.strip(". ")
  \<close>
\<close>

definition sanitize_path_component :: "string \<Rightarrow> string" where
  "sanitize_path_component name =
     str_strip ''. '' (foldl (\<lambda>n ch. str_replace_char ch ''_'' n) name invalid_chars)"

subsection \<open>Writing the downloaded file (steps 4 and 5 of \<open>_download_track_sync\<close>)\<close>

text \<open>
  The library tree is a map from paths to file contents. \<open>shutil.move\<close> of a file renames
  it over the destination, and raises when the source does not exist.
\<close>

type_synonym path = string
type_synonym bytes = string
type_synonym filesystem = "path \<rightharpoonup> bytes"

definition shutil_move :: "filesystem \<Rightarrow> path \<Rightarrow> path \<Rightarrow> filesystem option" where
  "shutil_move fs src dst =
     (case fs src of
        None \<Rightarrow> None
      | Some b \<Rightarrow> Some ((fs(src := None))(dst \<mapsto> b)))"

text \<open>
  \<open>extract_flac(tmp_path, file_path)\<close> belongs to the download-platform library. What the
  code sees of it: it returns after writing the extracted stream to the final path, or it
  raises, having left at the final path nothing new or some partial output. It reads the
  temp file and leaves it in place.
\<close>

datatype extract_outcome = Extracted bytes | ExtractFailed "bytes option"

text \<open>
  \<^verbatim>\<open>
  tmp_path = file_path.with_suffix(file_path.suffix + ".tmp")
  tmp_path.write_bytes(stream_data)
  if file_extension == ".flac":
      try:
          extract_flac(tmp_path, file_path)
          tmp_path.unlink(missing_ok=True)
      except Exception:
          shutil.move(str(tmp_path), str(file_path))
  else:
      shutil.move(str(tmp_path), str(file_path))
  \<close>
  The file name ends in the extension, so \<open>with_suffix\<close> appends \<open>.tmp\<close> to the path.
  The result is \<open>None\<close> when an exception leaves the function.
\<close>

definition tmp_path_of :: "path \<Rightarrow> path" where
  "tmp_path_of file_path = file_path @ ''.tmp''"

definition store_stream ::
  "(bytes \<Rightarrow> extract_outcome) \<Rightarrow> filesystem \<Rightarrow> path \<Rightarrow> string \<Rightarrow> bytes \<Rightarrow> filesystem option" where
  "store_stream extract_flac fs file_path file_extension stream_data =
     (let tmp_path = tmp_path_of file_path;
          fs1 = fs(tmp_path \<mapsto> stream_data)
      in if file_extension = ''.flac'' then
           (case extract_flac stream_data of
              Extracted out \<Rightarrow> Some ((fs1(file_path \<mapsto> out))(tmp_path := None))
            | ExtractFailed partial \<Rightarrow>
                shutil_move (case partial of None \<Rightarrow> fs1 | Some p \<Rightarrow> fs1(file_path \<mapsto> p))
                  tmp_path file_path)
         else shutil_move fs1 tmp_path file_path)"

subsection \<open>Album download\<close>

datatype exn = ApiError string | Exception string

datatype http_error = HTTPException nat string

record track =
  track_id :: int
  track_title :: string

text \<open>
  An entry of an album listing: it may lack the attribute \<open>item\<close>, and its item may be a
  track (which has the attribute \<open>isrc\<close>) or something else that has not.
\<close>

datatype media = WithIsrc track | NoIsrc

record album_item =
  item :: "media option"

record page =
  items :: "album_item list"
  limit :: int
  totalNumberOfItems :: int

record album =
  album_title :: string
  album_artist :: "string option"

text \<open>
  \<^verbatim>\<open>
  for album_item in items.items:
      if hasattr(album_item, "item") and hasattr(album_item.item, "isrc"):
          tracks.append(album_item.item)
  \<close>
\<close>

fun retained :: "album_item list \<Rightarrow> track list" where
  "retained [] = []"
| "retained (a # as) =
     (case item a of
        Some (WithIsrc t) \<Rightarrow> t # retained as
      | _ \<Rightarrow> retained as)"

text \<open>
  \<^verbatim>\<open>
  tracks = []; offset = 0
  while True:
      items = api.get_album_items(req.album_id, limit=100, offset=offset)
      ...
      offset += items.limit
      if offset >= items.totalNumberOfItems:
          break
  \<close>
  The platform call takes the limit and the offset, and returns a page or raises. The loop
  need not end, so the function is partial: \<open>None\<close> is a loop that never leaves.
\<close>

partial_function (option) fetch_tracks ::
  "(int \<Rightarrow> int \<Rightarrow> exn + page) \<Rightarrow> int \<Rightarrow> track list \<Rightarrow> (exn + track list) option" where
  "fetch_tracks get_album_items offset tracks =
     (case get_album_items 100 offset of
        Inl e \<Rightarrow> Some (Inl e)
      | Inr p \<Rightarrow>
          (let tracks' = tracks @ retained (items p);
               offset' = offset + limit p
           in if offset' \<ge> totalNumberOfItems p then Some (Inr tracks')
              else fetch_tracks get_album_items offset' tracks'))"

text \<open>
  What the loop over the tracks does that can be seen from outside: it sleeps and it
  attempts the download of a track.
\<close>

datatype 'd event = Sleep 'd | Attempt int

record track_failure =
  tf_track_id :: int
  tf_title :: string
  tf_error :: string

text \<open>\<open>os.getenv(key, default)\<close> on the environment.\<close>

definition getenv :: "(string \<rightharpoonup> string) \<Rightarrow> string \<Rightarrow> string \<Rightarrow> string" where
  "getenv env key dflt = (case env key of None \<Rightarrow> dflt | Some v \<Rightarrow> v)"

text \<open>
  \<^verbatim>\<open>
  for i, track in enumerate(tracks):
      if i > 0:
          delay = float(os.getenv("TIDAL_TRACK_DELAY", "3"))
          await asyncio.sleep(delay)
      try:
          result = await asyncio.to_thread(_download_track_sync, ...)
          results.append(result)
      except Exception as e:
          errors.append({"track_id": track.id, "title": track.title, "error": str(e)})
  \<close>
  \<open>float_of\<close> is Python's \<open>float\<close> on a string (\<open>None\<close>: it raises \<open>ValueError\<close>, outside
  the inner \<open>try\<close>). \<open>dl i t\<close> is the outcome of the \<open>i\<close>-th download, of track \<open>t\<close>: a
  result, or the text of the exception it raised. The state is the results, the errors
  and the events so far.
\<close>

fun download_loop ::
  "(string \<Rightarrow> 'd option) \<Rightarrow> (string \<rightharpoonup> string) \<Rightarrow> (nat \<Rightarrow> track \<Rightarrow> string + 'r) \<Rightarrow> nat \<Rightarrow> track list \<Rightarrow>
   'r list \<times> track_failure list \<times> 'd event list \<Rightarrow>
   exn + 'r list \<times> track_failure list \<times> 'd event list" where
  "download_loop float_of env dl i [] st = Inr st"
| "download_loop float_of env dl i (t # ts) (results, errors, trace) =
     (case (if i > 0 then
              (case float_of (getenv env ''TIDAL_TRACK_DELAY'' ''3'') of
                 None \<Rightarrow> Inl (Exception ''could not convert string to float'')
               | Some delay \<Rightarrow> Inr (trace @ [Sleep delay]))
            else Inr trace) of
        Inl e \<Rightarrow> Inl e
      | Inr trace1 \<Rightarrow>
          (case dl i t of
             Inr result \<Rightarrow>
               download_loop float_of env dl (Suc i) ts
                 (results @ [result], errors, trace1 @ [Attempt (track_id t)])
           | Inl e \<Rightarrow>
               download_loop float_of env dl (Suc i) ts
                 (results, errors @ [\<lparr>tf_track_id = track_id t, tf_title = track_title t, tf_error = e\<rparr>],
                  trace1 @ [Attempt (track_id t)])))"

record 'r album_response =
  r_album_id :: int
  r_album_title :: string
  r_artist :: string
  total_tracks :: nat
  downloaded :: nat
  failed :: nat
  r_tracks :: "'r list"
  r_errors :: "track_failure list"

definition exn_text :: "exn \<Rightarrow> string" where
  "exn_text e = (case e of ApiError s \<Rightarrow> s | Exception s \<Rightarrow> s)"

text \<open>The two handlers at the end of \<open>download_album\<close>: 400 for an \<open>ApiError\<close>, 500 otherwise.\<close>

definition album_handler :: "exn \<Rightarrow> http_error" where
  "album_handler e =
     (case e of ApiError s \<Rightarrow> HTTPException 400 s | Exception s \<Rightarrow> HTTPException 500 s)"

text \<open>
  The route \<open>download_album\<close>: the token check, the album lookup, the paging loop, the
  download loop and the response. The outer \<open>option\<close> is the paging loop's.
\<close>

definition download_album ::
  "(int \<Rightarrow> exn + album) \<Rightarrow> (int \<Rightarrow> int \<Rightarrow> int \<Rightarrow> exn + page) \<Rightarrow> (string \<Rightarrow> 'd option) \<Rightarrow>
   (string \<rightharpoonup> string) \<Rightarrow> (nat \<Rightarrow> track \<Rightarrow> string + 'r) \<Rightarrow> int \<Rightarrow> string \<Rightarrow>
   (http_error + 'r album_response \<times> 'd event list) option" where
  "download_album get_album get_album_items float_of env dl album_id access_token =
     (if access_token = [] then Some (Inl (HTTPException 401 ''access_token required''))
      else
        (case get_album album_id of
           Inl e \<Rightarrow> Some (Inl (album_handler e))
         | Inr album \<Rightarrow>
             (case fetch_tracks (get_album_items album_id) 0 [] of
                None \<Rightarrow> None
              | Some (Inl e) \<Rightarrow> Some (Inl (album_handler e))
              | Some (Inr tracks) \<Rightarrow>
                  (case download_loop float_of env dl 0 tracks ([], [], []) of
                     Inl e \<Rightarrow> Some (Inl (album_handler e))
                   | Inr (results, errors, trace) \<Rightarrow>
                       Some (Inr
                         (\<lparr>r_album_id = album_id,
                           r_album_title = album_title album,
                           r_artist = (case album_artist album of None \<Rightarrow> ''Unknown'' | Some a \<Rightarrow> a),
                           total_tracks = length tracks,
                           downloaded = length results,
                           failed = length errors,
                           r_tracks = results,
                           r_errors = errors\<rparr>, trace))))))"

section \<open>Channel streaming sidecar (services/ytmusic-streamer/app.py)\<close>

subsection \<open>State\<close>

text \<open>
  Values of the dictionaries the extractor returns: \<open>None\<close>, a string or a number.
  \<open>truthy\<close> is Python's truth value of such a value.
\<close>

datatype jv = JNone | JStr string | JNum real

fun truthy :: "jv \<Rightarrow> bool" where
  "truthy JNone = False"
| "truthy (JStr s) = (s \<noteq> [])"
| "truthy (JNum x) = (x \<noteq> 0)"

text \<open>\<open>d.get(key, default)\<close> for a key that is absent (\<open>None\<close>) or present with a value.\<close>

definition dict_get :: "'a option \<Rightarrow> 'a \<Rightarrow> 'a" where
  "dict_get field dflt = (case field of None \<Rightarrow> dflt | Some v \<Rightarrow> v)"

text \<open>
  A catalog client handle. The library's \<open>YTMusic\<close> object is opaque; the handle records
  what it was built from, and which construction of this process built it.
\<close>

record ytmusic =
  yt_serial :: nat
  yt_oauth :: string
  yt_creds :: "(string \<times> string) option"

text \<open>The dictionary \<open>_get_stream_url_sync\<close> caches and returns.\<close>

record stream_entry =
  se_url :: string
  se_content_type :: jv
  se_duration :: jv
  se_title :: jv
  se_artist :: jv
  se_expires_at :: real
  se_abr :: jv
  se_acodec :: jv

text \<open>
  The state of the process: the files under \<open>DATA_PATH\<close> by name, the two module-level
  dictionaries \<open>_ytmusic_instances\<close> and \<open>_stream_cache\<close>, and two observations of what
  the process has done: how many handles it has constructed, and the calls it has made to
  the extractor (format selector and URL).
\<close>

record yt_state =
  data_files :: "string \<rightharpoonup> string"
  ytmusic_instances :: "string \<rightharpoonup> ytmusic"
  stream_cache :: "string \<rightharpoonup> stream_entry"
  built :: nat
  extractions :: "(string \<times> string) list"

text \<open>
  What the code uses of its libraries: whether \<open>json.loads\<close> accepts a text, the client
  id and secret read back from the text of a client-credential file (\<open>None\<close>: reading
  raises), \<open>json.dumps\<close> of such a pair and of a token, and whether the constructor
  \<open>YTMusic\<close> succeeds on a credential text with optional client credentials.
\<close>

record lib =
  json_loads_ok :: "string \<Rightarrow> bool"
  creds_of_json :: "string \<Rightarrow> (string \<times> string) option"
  json_of_creds :: "string \<Rightarrow> string \<Rightarrow> string"
  json_of_token :: "(string \<times> string) list \<Rightarrow> string"
  ytmusic_ok :: "string \<Rightarrow> (string \<times> string) option \<Rightarrow> bool"

definition oauth_file :: "string \<Rightarrow> string" where
  "oauth_file user_id = ''oauth_'' @ user_id @ ''.json''"

definition client_creds_file :: "string \<Rightarrow> string" where
  "client_creds_file user_id = ''client_creds_'' @ user_id @ ''.json''"

subsection \<open>The handle cache\<close>

definition oauth_invalid :: http_error where
  "oauth_invalid = HTTPException 401 ''OAuth credentials invalid. Please re-authenticate.''"

text \<open>
  \<open>_get_ytmusic\<close>: the cached handle if there is one; else a handle built from the
  credential file (and the client-credential file, if present), stored in the cache; 401
  when the credential file is missing or when anything raises while building.
\<close>

definition get_ytmusic :: "lib \<Rightarrow> yt_state \<Rightarrow> string \<Rightarrow> (http_error + ytmusic) \<times> yt_state" where
  "get_ytmusic lib s user_id =
     (case ytmusic_instances s user_id of
        Some yt \<Rightarrow> (Inr yt, s)
      | None \<Rightarrow>
          (case data_files s (oauth_file user_id) of
             None \<Rightarrow> (Inl (HTTPException 401 ''Not authenticated. Please set up OAuth first.''), s)
           | Some oauth_text \<Rightarrow>
               if \<not> json_loads_ok lib oauth_text then (Inl oauth_invalid, s)
               else
                 (case (case data_files s (client_creds_file user_id) of
                          None \<Rightarrow> Some None
                        | Some creds_text \<Rightarrow> map_option Some (creds_of_json lib creds_text)) of
                    None \<Rightarrow> (Inl oauth_invalid, s)
                  | Some oauth_creds \<Rightarrow>
                      if ytmusic_ok lib oauth_text oauth_creds then
                        (let yt = \<lparr>yt_serial = built s, yt_oauth = oauth_text, yt_creds = oauth_creds\<rparr>
                         in (Inr yt, s\<lparr>ytmusic_instances := (ytmusic_instances s)(user_id \<mapsto> yt),
                                       built := Suc (built s)\<rparr>))
                      else (Inl oauth_invalid, s))))"

text \<open>\<open>_invalidate_ytmusic\<close>: \<open>_ytmusic_instances.pop(user_id, None)\<close>.\<close>

definition invalidate_ytmusic :: "yt_state \<Rightarrow> string \<Rightarrow> yt_state" where
  "invalidate_ytmusic s user_id = s\<lparr>ytmusic_instances := (ytmusic_instances s)(user_id := None)\<rparr>"

text \<open>
  Every catalog route (\<open>search\<close>, \<open>get_album\<close>, \<open>get_artist\<close>, \<open>get_song\<close>,
  \<open>library_songs\<close>, \<open>library_albums\<close>) gets the handle first and then calls the library
  on it, any failure of that call becoming a 500.
\<close>

definition catalog_call ::
  "lib \<Rightarrow> (ytmusic \<Rightarrow> string + 'a) \<Rightarrow> yt_state \<Rightarrow> string \<Rightarrow> (http_error + 'a) \<times> yt_state" where
  "catalog_call lib operation s user_id =
     (case get_ytmusic lib s user_id of
        (Inl e, s1) \<Rightarrow> (Inl e, s1)
      | (Inr yt, s1) \<Rightarrow>
          (case operation yt of
             Inl e \<Rightarrow> (Inl (HTTPException 500 e), s1)
           | Inr r \<Rightarrow> (Inr r, s1)))"

subsection \<open>Credential routes\<close>

type_synonym json_object = "(string \<times> string) list"

record restore_body =
  oauth_json :: "string option"
  client_id :: "string option"
  client_secret :: "string option"

text \<open>\<open>if x\<close> for an optional string: neither \<open>None\<close> nor empty.\<close>

definition nonempty :: "string option \<Rightarrow> bool" where
  "nonempty x = (case x of None \<Rightarrow> False | Some v \<Rightarrow> v \<noteq> [])"

text \<open>
  \<open>auth_restore\<close>: 400 without \<open>oauth_json\<close> or when it is not JSON; else the credential
  file is written, the client-credential file too when both id and secret are given, and
  the handle is invalidated.
\<close>

definition auth_restore ::
  "lib \<Rightarrow> yt_state \<Rightarrow> string \<Rightarrow> restore_body \<Rightarrow> (http_error + json_object) \<times> yt_state" where
  "auth_restore lib s user_id body =
     (case oauth_json body of
        None \<Rightarrow> (Inl (HTTPException 400 ''oauth_json is required''), s)
      | Some text \<Rightarrow>
          if text = [] then (Inl (HTTPException 400 ''oauth_json is required''), s)
          else if \<not> json_loads_ok lib text then (Inl (HTTPException 400 ''Invalid JSON in oauth_json''), s)
          else
            (let s1 = s\<lparr>data_files := (data_files s)(oauth_file user_id \<mapsto> text)\<rparr>;
                 s2 = (if nonempty (client_id body) \<and> nonempty (client_secret body)
                       then s1\<lparr>data_files := (data_files s1)(client_creds_file user_id \<mapsto>
                                  json_of_creds lib (dict_get (client_id body) []) (dict_get (client_secret body) []))\<rparr>
                       else s1)
             in (Inr [(''status'', ''ok''), (''message'', ''OAuth credentials restored'')],
                 invalidate_ytmusic s2 user_id)))"

text \<open>\<open>auth_clear\<close>: the handle is invalidated and both files are deleted if they exist.\<close>

definition auth_clear :: "yt_state \<Rightarrow> string \<Rightarrow> json_object \<times> yt_state" where
  "auth_clear s user_id =
     (let s1 = invalidate_ytmusic s user_id;
          s2 = s1\<lparr>data_files := (data_files s1)(oauth_file user_id := None)\<rparr>;
          s3 = s2\<lparr>data_files := (data_files s2)(client_creds_file user_id := None)\<rparr>
      in ([(''status'', ''ok''), (''message'', ''OAuth credentials removed'')], s3))"

subsection \<open>Device-code poll\<close>

definition ERROR_MESSAGES :: "(string \<times> string) list" where
  "ERROR_MESSAGES =
     [(''invalid_grant'', ''The sign-in code has expired or was already used. Please start over.''),
      (''expired_token'', ''The sign-in code has expired. Please start over.''),
      (''access_denied'',
         ''Access was denied. Please try again and click '' @ [CHR 0x27] @ ''Allow'' @ [CHR 0x27] @ '' on the Google page.''),
      (''invalid_client'',
         ''OAuth client credentials are invalid. Please ask your admin to check the Client ID and Secret.'')]"

text \<open>\<open>str.lower\<close> on the letters A to Z.\<close>

definition lower_char :: "char \<Rightarrow> char" where
  "lower_char c =
     dict_get (map_of (zip ''ABCDEFGHIJKLMNOPQRSTUVWXYZ'' ''abcdefghijklmnopqrstuvwxyz'') c) c"

definition str_lower :: "string \<Rightarrow> string" where
  "str_lower s = map lower_char s"

text \<open>
  The outcome of \<open>oauth_creds.token_from_code(device_code)\<close>: a token dictionary, which
  may hold the key \<open>error\<close>, or an exception with its text.
\<close>

datatype token_outcome = TokenReturned "(string \<times> string) list" | TokenRaised string

text \<open>
  \<open>auth_device_code_poll\<close>. With a token dictionary: the key \<open>error\<close> gives a pending or
  an error response; without it the token and the client credentials are written and the
  handle is invalidated. With an exception: the handler at the end of the route. The
  Python substring test \<open>a in b\<close> is \<open>sublist a b\<close>.
\<close>

definition auth_device_code_poll ::
  "lib \<Rightarrow> token_outcome \<Rightarrow> yt_state \<Rightarrow> string \<Rightarrow> string \<Rightarrow> string \<Rightarrow>
   (http_error + json_object) \<times> yt_state" where
  "auth_device_code_poll lib outcome s user_id req_client_id req_client_secret =
     (case outcome of
        TokenReturned token \<Rightarrow>
          (case map_of token ''error'' of
             Some error \<Rightarrow>
               if error \<in> set [''authorization_pending'', ''slow_down'']
               then (Inr [(''status'', ''pending''), (''error'', error)], s)
               else
                 (let friendly = dict_get (map_of ERROR_MESSAGES error)
                        (''Authorization failed ('' @ error @ ''). Please try again.'')
                  in (Inr [(''status'', ''error''), (''error'', friendly)], s))
           | None \<Rightarrow>
               (let token_json = json_of_token lib token;
                    s1 = s\<lparr>data_files := (data_files s)(oauth_file user_id \<mapsto> token_json)\<rparr>;
                    s2 = s1\<lparr>data_files := (data_files s1)(client_creds_file user_id \<mapsto>
                               json_of_creds lib req_client_id req_client_secret)\<rparr>
                in (Inr [(''status'', ''success''), (''oauth_json'', token_json)],
                    invalidate_ytmusic s2 user_id)))
      | TokenRaised e \<Rightarrow>
          (let error_str = str_lower e
           in if sublist ''authorization_pending'' error_str
              then (Inr [(''status'', ''pending''), (''error'', ''authorization_pending'')], s)
              else
                (case find (\<lambda>(error_key, friendly_msg). sublist error_key error_str) ERROR_MESSAGES of
                   Some (error_key, friendly_msg) \<Rightarrow>
                     (Inr [(''status'', ''error''), (''error'', friendly_msg)], s)
                 | None \<Rightarrow>
                     (Inl (HTTPException 500 (''Failed to poll device code: '' @ e)), s))))"

subsection \<open>Stream resolution and its cache\<close>

definition STREAM_CACHE_TTL :: real where
  "STREAM_CACHE_TTL = 5 * 60 * 60"

definition format_map :: "(string \<times> string) list" where
  "format_map =
     [(''LOW'', ''ba[abr<=64]/worstaudio/ba''),
      (''MEDIUM'', ''ba[abr<=128]/ba[abr<=192]/ba''),
      (''HIGH'', ''ba[abr<=256]/ba''),
      (''LOSSLESS'', ''ba/bestaudio'')]"

text \<open>
  \<open>fmt = format_map.get(quality, format_map["HIGH"])\<close>; the subscript raises when the key
  is missing (\<open>None\<close>).
\<close>

definition format_selector :: "string \<Rightarrow> string option" where
  "format_selector quality =
     (case map_of format_map ''HIGH'' of
        None \<Rightarrow> None
      | Some high \<Rightarrow> Some (dict_get (map_of format_map quality) high))"

text \<open>
  A format descriptor and the info dictionary of the extractor. In a descriptor, and for
  the keys read without a default, a missing key and the value \<open>None\<close> read the same
  (\<open>None\<close> here); the keys read with a default are absent (\<open>None\<close>) or hold a value.
\<close>

record format_desc =
  f_acodec :: "string option"
  f_vcodec :: "string option"
  f_abr :: "real option"
  f_url :: "string option"

record info =
  i_url :: "string option"
  i_formats :: "format_desc list"
  i_audio_ext :: "jv option"
  i_duration :: "jv option"
  i_title :: "jv option"
  i_artist :: "jv option"
  i_uploader :: "jv option"
  i_abr :: "jv option"
  i_acodec :: "jv option"

text \<open>
  The outcome of \<open>ydl.extract_info(url, download=False)\<close> (or of building the extractor):
  an exception, or an info dictionary, \<open>None\<close> standing for a falsy one.
\<close>

datatype ydl_outcome = YdlRaised string | YdlInfo "info option"

text \<open>
  \<^verbatim>\<open>
  audio_formats = [f for f in formats
                   if f.get("acodec") != "none" and f.get("vcodec") in ("none", None)]
  if audio_formats:
      audio_formats.sort(key=lambda f: f.get("abr", 0) or 0, reverse=True)
      stream_url = audio_formats[0].get("url")
  \<close>
  A reverse sort is the stable ascending sort of the reversed list, reversed.
\<close>

definition fallback_url :: "format_desc list \<Rightarrow> string option" where
  "fallback_url formats =
     (let audio_formats =
            filter (\<lambda>f. f_acodec f \<noteq> Some ''none'' \<and> (f_vcodec f = Some ''none'' \<or> f_vcodec f = None)) formats
      in case rev (sort_key (\<lambda>f. dict_get (f_abr f) 0) (rev audio_formats)) of
           [] \<Rightarrow> None
         | f # _ \<Rightarrow> f_url f)"

definition cache_key_of :: "string \<Rightarrow> string \<Rightarrow> string" where
  "cache_key_of user_id video_id = user_id @ '':'' @ video_id"

definition extract_failed :: "string \<Rightarrow> http_error" where
  "extract_failed e = HTTPException 502 (''Failed to extract stream: '' @ e)"

text \<open>
  \<open>_get_stream_url_sync\<close> after the cache check: the extractor is called with the format
  selector of the quality, and a resolved entry is stored under the cache key.
  \<open>resolved_at\<close> is the clock when the entry is built; \<open>ydl fmt url\<close> is what the
  extractor does on this call.
\<close>

definition resolve_stream ::
  "(string \<Rightarrow> string \<Rightarrow> ydl_outcome) \<Rightarrow> real \<Rightarrow> yt_state \<Rightarrow> string \<Rightarrow> string \<Rightarrow> string \<Rightarrow>
   (http_error + stream_entry) \<times> yt_state" where
  "resolve_stream ydl resolved_at s user_id video_id quality =
     (case format_selector quality of
        None \<Rightarrow> (Inl (HTTPException 500 ''Internal Server Error''), s)
      | Some fmt \<Rightarrow>
          (let url = ''https://music.youtube.com/watch?v='' @ video_id;
               s1 = s\<lparr>extractions := extractions s @ [(fmt, url)]\<rparr>
           in case ydl fmt url of
                YdlRaised e \<Rightarrow> (Inl (extract_failed e), s1)
              | YdlInfo None \<Rightarrow> (Inl (extract_failed ''No info extracted''), s1)
              | YdlInfo (Some info) \<Rightarrow>
                  (let stream_url = (if nonempty (i_url info) then i_url info
                                     else fallback_url (i_formats info))
                   in if \<not> nonempty stream_url
                      then (Inl (extract_failed ''No audio stream URL found''), s1)
                      else
                        (let result =
                               \<lparr>se_url = dict_get stream_url [],
                                se_content_type = dict_get (i_audio_ext info) (JStr ''m4a''),
                                se_duration = dict_get (i_duration info) (JNum 0),
                                se_title = dict_get (i_title info) (JStr []),
                                se_artist = (if truthy (dict_get (i_artist info) JNone)
                                             then dict_get (i_artist info) JNone
                                             else dict_get (i_uploader info) (JStr [])),
                                se_expires_at = resolved_at + STREAM_CACHE_TTL,
                                se_abr = dict_get (i_abr info) (JNum 0),
                                se_acodec = dict_get (i_acodec info) (JStr [])\<rparr>
                         in (Inr result,
                             s1\<lparr>stream_cache :=
                                  (stream_cache s1)(cache_key_of user_id video_id \<mapsto> result)\<rparr>)))))"

text \<open>
  \<open>_get_stream_url_sync\<close>: a cached entry whose expiry is after \<open>now\<close>, the clock at the
  cache check, is returned as it is; otherwise the stream is resolved.
\<close>

definition get_stream_url_sync ::
  "(string \<Rightarrow> string \<Rightarrow> ydl_outcome) \<Rightarrow> real \<Rightarrow> real \<Rightarrow> yt_state \<Rightarrow> string \<Rightarrow> string \<Rightarrow> string \<Rightarrow>
   (http_error + stream_entry) \<times> yt_state" where
  "get_stream_url_sync ydl now resolved_at s user_id video_id quality =
     (case stream_cache s (cache_key_of user_id video_id) of
        None \<Rightarrow> resolve_stream ydl resolved_at s user_id video_id quality
      | Some cached \<Rightarrow>
          if se_expires_at cached > now then (Inr cached, s)
          else resolve_stream ydl resolved_at s user_id video_id quality)"

text \<open>\<open>_clean_stream_cache\<close>: the entries whose expiry is not after \<open>now\<close> are deleted.\<close>

definition clean_stream_cache :: "real \<Rightarrow> yt_state \<Rightarrow> yt_state" where
  "clean_stream_cache now s =
     s\<lparr>stream_cache := (\<lambda>k. case stream_cache s k of
                               None \<Rightarrow> None
                             | Some v \<Rightarrow> if se_expires_at v \<le> now then None else Some v)\<rparr>"

text \<open>
  The route \<open>get_stream_info\<close>: the user must have a handle, then the stream is resolved
  through the cache; the response is made of the fields of the entry.
\<close>

definition get_stream_info ::
  "lib \<Rightarrow> (string \<Rightarrow> string \<Rightarrow> ydl_outcome) \<Rightarrow> real \<Rightarrow> real \<Rightarrow> yt_state \<Rightarrow> string \<Rightarrow> string \<Rightarrow> string \<Rightarrow>
   (http_error + stream_entry) \<times> yt_state" where
  "get_stream_info lib ydl now resolved_at s video_id user_id quality =
     (case get_ytmusic lib s user_id of
        (Inl e, s1) \<Rightarrow> (Inl e, s1)
      | (Inr yt, s1) \<Rightarrow> get_stream_url_sync ydl now resolved_at s1 user_id video_id quality)"

subsection \<open>A sample process state\<close>

text \<open>
  A library that accepts every JSON text but \<open>{\<close>, and a state in which user \<open>u\<close> has a
  credential file, a cached handle and a cached stream entry for the video \<open>v\<close> that
  expires at time 100; an extractor that resolves a direct URL and one that raises; the
  body of a restore request.
\<close>

definition sample_lib :: lib where
  "sample_lib =
     \<lparr>json_loads_ok = (\<lambda>text. text \<noteq> ''{''),
      creds_of_json = (\<lambda>text. None),
      json_of_creds = (\<lambda>i sec. i @ '' '' @ sec),
      json_of_token = (\<lambda>token. ''{token}''),
      ytmusic_ok = (\<lambda>text creds. True)\<rparr>"

definition sample_entry :: stream_entry where
  "sample_entry =
     \<lparr>se_url = ''https://cdn/old'', se_content_type = JStr ''m4a'', se_duration = JNum 200,
      se_title = JStr ''song'', se_artist = JStr ''band'', se_expires_at = 100,
      se_abr = JNum 128, se_acodec = JStr ''mp4a''\<rparr>"

definition sample_state :: yt_state where
  "sample_state =
     \<lparr>data_files = [''oauth_u.json'' \<mapsto> ''{}''],
      ytmusic_instances = [''u'' \<mapsto> \<lparr>yt_serial = 0, yt_oauth = ''{}'', yt_creds = None\<rparr>],
      stream_cache = [''u:v'' \<mapsto> sample_entry],
      built = 1,
      extractions = []\<rparr>"

definition sample_info :: info where
  "sample_info =
     \<lparr>i_url = Some ''https://cdn/new'', i_formats = [], i_audio_ext = None, i_duration = None,
      i_title = None, i_artist = None, i_uploader = None, i_abr = None, i_acodec = None\<rparr>"

definition sample_ydl :: "string \<Rightarrow> string \<Rightarrow> ydl_outcome" where
  "sample_ydl fmt url = YdlInfo (Some sample_info)"

definition failing_ydl :: "string \<Rightarrow> string \<Rightarrow> ydl_outcome" where
  "failing_ydl fmt url = YdlRaised ''network unreachable''"

definition sample_body :: restore_body where
  "sample_body = \<lparr>oauth_json = Some ''{new}'', client_id = None, client_secret = None\<rparr>"

subsection \<open>A sample state with JSON credentials\<close>

text \<open>
  The texts of an OAuth token file and of a client-credential file as \<open>json.dumps\<close>
  writes them for strings without special characters, and \<open>json.dumps(token, indent=True)\<close>
  of a token with string values: one member per line, indented by one space.
\<close>

definition json_str :: "string \<Rightarrow> string" where
  "json_str text = [CHR 0x22] @ text @ [CHR 0x22]"

definition oauth_text_of :: "string \<Rightarrow> string" where
  "oauth_text_of access =
     ''{'' @ json_str ''scope'' @ '': '' @ json_str ''https://www.googleapis.com/auth/youtube''
     @ '', '' @ json_str ''token_type'' @ '': '' @ json_str ''Bearer''
     @ '', '' @ json_str ''access_token'' @ '': '' @ json_str access
     @ '', '' @ json_str ''refresh_token'' @ '': '' @ json_str ''refresh''
     @ '', '' @ json_str ''expires_at'' @ '': 1800003600''
     @ '', '' @ json_str ''expires_in'' @ '': 3600}''"

definition creds_json :: "string \<Rightarrow> string \<Rightarrow> string" where
  "creds_json i sec =
     ''{'' @ json_str ''client_id'' @ '': '' @ json_str i
     @ '', '' @ json_str ''client_secret'' @ '': '' @ json_str sec @ ''}''"

fun json_members :: "(string \<times> string) list \<Rightarrow> string" where
  "json_members [] = []"
| "json_members [(k, v)] = [CHR 0x0A] @ '' '' @ json_str k @ '': '' @ json_str v"
| "json_members ((k, v) # rest) =
     [CHR 0x0A] @ '' '' @ json_str k @ '': '' @ json_str v @ '','' @ json_members rest"

definition token_json :: "(string \<times> string) list \<Rightarrow> string" where
  "token_json token =
     (if token = [] then ''{}'' else ''{'' @ json_members token @ [CHR 0x0A] @ ''}'')"

text \<open>
  A library stated on these texts only: it parses the two token files and the
  client-credential file of the client \<open>id\<close> with the secret \<open>secret\<close>, and builds a
  handle from a token file together with these client credentials.
\<close>

definition token_lib :: lib where
  "token_lib =
     \<lparr>json_loads_ok = (\<lambda>text. text \<in> set [oauth_text_of ''old'', oauth_text_of ''new'',
                                              creds_json ''id'' ''secret'']),
      creds_of_json = (\<lambda>text. if text = creds_json ''id'' ''secret''
                                then Some (''id'', ''secret'') else None),
      json_of_creds = creds_json,
      json_of_token = token_json,
      ytmusic_ok = (\<lambda>text creds. text \<in> set [oauth_text_of ''old'', oauth_text_of ''new'']
                                   \<and> creds = Some (''id'', ''secret''))\<rparr>"

text \<open>
  User \<open>u\<close> has both files, a cached handle built from them, and a stream entry for the
  video \<open>v\<close> that was resolved at time 1800000000.
\<close>

definition cached_entry :: stream_entry where
  "cached_entry =
     \<lparr>se_url = ''https://cdn/old'', se_content_type = JStr ''m4a'', se_duration = JNum 200,
      se_title = JStr ''song'', se_artist = JStr ''band'', se_expires_at = 1800018000,
      se_abr = JNum 128, se_acodec = JStr ''mp4a''\<rparr>"

definition cached_state :: yt_state where
  "cached_state =
     \<lparr>data_files = [''oauth_u.json'' \<mapsto> oauth_text_of ''old'',
                     ''client_creds_u.json'' \<mapsto> creds_json ''id'' ''secret''],
      ytmusic_instances =
        [''u'' \<mapsto> \<lparr>yt_serial = 0, yt_oauth = oauth_text_of ''old'',
                      yt_creds = Some (''id'', ''secret'')\<rparr>],
      stream_cache = [''u:v'' \<mapsto> cached_entry],
      built = 1,
      extractions = []\<rparr>"

text \<open>The body of a restore request with a new token and the same client credentials.\<close>

definition restore_request :: restore_body where
  "restore_request =
     \<lparr>oauth_json = Some (oauth_text_of ''new''), client_id = Some ''id'',
      client_secret = Some ''secret''\<rparr>"

text \<open>The token of a completed device-code grant, with its string members.\<close>

definition granted_token :: "(string \<times> string) list" where
  "granted_token =
     [(''access_token'', ''new''), (''refresh_token'', ''refresh''),
      (''scope'', ''https://www.googleapis.com/auth/youtube''), (''token_type'', ''Bearer'')]"

section \<open>Properties\<close>

subsection \<open>Path sanitisation\<close>

lemma str_replace_char_map:
  "str_replace_char ch [r] name = map (\<lambda>c. if c = ch then r else c) name"
  by (induction name) (simp_all add: str_replace_char_def)

lemma foldl_replace_map:
  "foldl (\<lambda>n ch. str_replace_char ch [r] n) name chs =
     map (\<lambda>c. if c \<in> set chs then r else c) name" if "r \<notin> set chs"
  using that
proof (induction chs arbitrary: name)
  case Nil
  then show ?case by simp
next
  case (Cons a chs)
  then show ?case
    by (auto simp: str_replace_char_map)
qed

lemma str_strip_no_lead: "takeWhile (\<lambda>c. c \<in> set chars) (str_strip chars s) = []"
proof -
  let ?P = "\<lambda>c. c \<in> set chars"
  let ?t = "dropWhile ?P s"
  show ?thesis
  proof (cases "?t")
    case Nil
    show ?thesis unfolding str_strip_def Nil by simp
  next
    case (Cons x xs)
    then have nx: "\<not> ?P x"
      by (metis hd_dropWhile list.distinct(1) list.sel(1))
    have "rev (dropWhile ?P (rev (x # xs))) = x # rev (dropWhile ?P (rev xs))"
      using nx by (simp add: dropWhile_append)
    then show ?thesis unfolding str_strip_def Cons using nx by simp
  qed
qed

lemma str_strip_no_trail: "takeWhile (\<lambda>c. c \<in> set chars) (rev (str_strip chars s)) = []"
proof -
  let ?P = "\<lambda>c. c \<in> set chars"
  have "rev (str_strip chars s) = dropWhile ?P (rev (dropWhile ?P s))"
    by (simp add: str_strip_def)
  then show ?thesis
    by (metis (mono_tags, lifting) hd_dropWhile takeWhile.simps(1) takeWhile_eq_Nil_iff)
qed

text \<open>
  Claim C2 (as amended). For every path segment the result of \<open>_sanitize_path_component\<close>
  is the segment with each character of \<open><>:"/\|?*\<close> replaced by an underscore and then
  leading and trailing dots and spaces stripped, so that no dot or space remains at either
  end; the input \<open>"My: Song? "\<close> sanitises to \<open>"My_ Song_"\<close> (one underscore for the one
  question mark, the trailing space stripped).
\<close>

theorem sanitize_path_component_spec:
  "sanitize_path_component name =
     str_strip ''. '' (map (\<lambda>c. if c \<in> set invalid_chars then CHR ''_'' else c) name)
   \<and> takeWhile (\<lambda>c. c \<in> set ''. '') (sanitize_path_component name) = []
   \<and> takeWhile (\<lambda>c. c \<in> set ''. '') (rev (sanitize_path_component name)) = []
   \<and> sanitize_path_component ''My: Song? '' = ''My_ Song_''"
proof -
  have a: "sanitize_path_component n =
      str_strip ''. '' (map (\<lambda>c. if c \<in> set invalid_chars then CHR ''_'' else c) n)" for n
    unfolding sanitize_path_component_def
    by (subst foldl_replace_map) (simp_all add: invalid_chars_def)
  have b: "sanitize_path_component ''My: Song? '' = ''My_ Song_''"
    by (simp add: a invalid_chars_def str_strip_def)
  show ?thesis
    using a b str_strip_no_lead [of "''. ''"] str_strip_no_trail [of "''. ''"]
    unfolding sanitize_path_component_def by blast
qed

theorem sanitize_path_component_spec_witness:
  "sanitize_path_component ''..a<b. '' = ''a_b''"
  using sanitize_path_component_spec [of "''..a<b. ''"]
  by (simp add: invalid_chars_def str_strip_def)

text \<open>
  The example of claim C2 as the specification words it: the result is not
  \<open>"My_ Song__"\<close>.
\<close>

theorem sanitize_example_counterexample:
  "sanitize_path_component ''My: Song? '' \<noteq> ''My_ Song__''"
  by (simp add: sanitize_path_component_def invalid_chars_def str_replace_char_def str_strip_def)


lemma tmp_path_neq: "tmp_path_of p \<noteq> p"
  by (simp add: tmp_path_of_def)

subsection \<open>Writing the downloaded file\<close>

text \<open>
  Claim C6. Step 5 of the download: for the extension \<open>.flac\<close> the extraction pass is
  attempted, and when it fails the temp file is renamed to the final path; for every other
  extension the temp file is renamed. The step always completes, and afterwards a file
  exists at the final path (the extracted stream when the pass succeeded, the downloaded
  bytes otherwise, whatever partial output a failed pass left there), no file exists at
  the \<open>.tmp\<close> path, and no other path of the library tree has changed.
\<close>

theorem store_stream_final_file:
  "\<exists>fs'. store_stream extract_flac fs file_path ext data = Some fs'
     \<and> fs' file_path =
         Some (if ext = ''.flac''
               then (case extract_flac data of Extracted out \<Rightarrow> out | ExtractFailed _ \<Rightarrow> data)
               else data)
     \<and> fs' (tmp_path_of file_path) = None
     \<and> (\<forall>p. p \<noteq> file_path \<and> p \<noteq> tmp_path_of file_path \<longrightarrow> fs' p = fs p)"
  using tmp_path_neq [of file_path]
  by (auto simp: store_stream_def shutil_move_def Let_def split: extract_outcome.splits option.splits)

lemma download_loop_spec:
  assumes "float_of (getenv env ''TIDAL_TRACK_DELAY'' ''3'') = Some d"
  shows "download_loop float_of env dl i ts (rs, es, tr) =
     Inr (rs @ map (\<lambda>(j, t). projr (dl j t)) (filter (\<lambda>(j, t). \<not> isl (dl j t)) (enumerate i ts)),
          es @ map (\<lambda>(j, t). \<lparr>tf_track_id = track_id t, tf_title = track_title t, tf_error = projl (dl j t)\<rparr>)
                 (filter (\<lambda>(j, t). isl (dl j t)) (enumerate i ts)),
          tr @ concat (map (\<lambda>(j, t). (if j > 0 then [Sleep d] else []) @ [Attempt (track_id t)])
                 (enumerate i ts)))"
  using assms
proof (induction ts arbitrary: i rs es tr)
  case Nil
  then show ?case by simp
next
  case (Cons t ts)
  show ?case
  proof (cases "dl i t")
    case (Inl e)
    then show ?thesis using Cons.prems
      by (auto simp: Cons.IH [OF Cons.prems])
  next
    case (Inr r)
    then show ?thesis using Cons.prems
      by (auto simp: Cons.IH [OF Cons.prems])
  qed
qed

lemma fetch_tracks_pages:
  assumes pg: "\<And>off. gai 100 off = Inr (pg off)"
    and lim: "\<And>off. limit (pg off) = L"
    and tot: "\<And>off. totalNumberOfItems (pg off) = n"
    and L: "L > 0"
    and K: "L * int K \<ge> n" "K > 1 \<Longrightarrow> L * (int K - 1) < n"
  shows "j < K \<Longrightarrow> fetch_tracks gai (L * int j) acc =
     Some (Inr (acc @ concat (map (\<lambda>k. retained (items (pg (L * int k)))) [j..<K])))"
proof (induction "K - j" arbitrary: j acc)
  case 0
  then show ?case by simp
next
  case (Suc m)
  have step: "L * int j + L = L * int (Suc j)"
    by (simp add: algebra_simps)
  show ?case
  proof (cases "L * int (Suc j) \<ge> n")
    case True
    have "Suc j = K"
    proof (cases "K > 1")
      case True
      with K(2) \<open>L * int (Suc j) \<ge> n\<close> have "L * (int K - 1) < L * int (Suc j)" by simp
      with L have "int K - 1 < int (Suc j)" by (simp add: mult_less_cancel_left_pos)
      with Suc.prems show ?thesis by simp
    next
      case False
      with Suc.prems show ?thesis by simp
    qed
    then have "[j..<K] = [j]" by (auto simp: upt_rec)
    then show ?thesis using True
      by (subst fetch_tracks.simps) (simp add: pg lim tot step Let_def del: of_nat_Suc)
  next
    case False
    with K(1) have "L * int (Suc j) < L * int K" by simp
    with L have sj: "Suc j < K" by (simp add: mult_less_cancel_left_pos)
    have m: "m = K - Suc j" using Suc.hyps(2) by simp
    have up: "[j..<K] = j # [Suc j..<K]" using sj by (simp add: upt_rec)
    show ?thesis using False
      by (subst fetch_tracks.simps)
        (simp add: pg lim tot step Let_def Suc.hyps(1) [OF m sj] up del: of_nat_Suc)
  qed
qed

text \<open>The extraction pass fails after writing partial output: the final file holds the downloaded bytes.\<close>

theorem store_stream_final_file_witness:
  "\<exists>fs'. store_stream (\<lambda>b. ExtractFailed (Some ''xx'')) Map.empty ''/music/a/01. s.flac'' ''.flac'' ''data'' = Some fs'
     \<and> fs' ''/music/a/01. s.flac'' = Some ''data''
     \<and> fs' ''/music/a/01. s.flac.tmp'' = None"
  using store_stream_final_file [of "\<lambda>b. ExtractFailed (Some ''xx'')" Map.empty "''/music/a/01. s.flac''" "''.flac''" "''data''"]
  by (auto simp: tmp_path_of_def)

subsection \<open>Album download\<close>

lemma attempts_of_trace:
  "filter (\<lambda>e. case e of Attempt _ \<Rightarrow> True | Sleep _ \<Rightarrow> False)
     (concat (map (\<lambda>(j, t). (if j > 0 then [Sleep d] else []) @ [Attempt (track_id t)]) (enumerate i ts)))
   = map (\<lambda>t. Attempt (track_id t)) ts"
  by (induction ts arbitrary: i) simp_all

lemma trace_after_first:
  "concat (map (\<lambda>(j, t). (if j > 0 then [Sleep d] else []) @ [Attempt (track_id t)]) (enumerate (Suc i) ts))
   = concat (map (\<lambda>t. [Sleep d, Attempt (track_id t)]) ts)"
  by (induction ts arbitrary: i) simp_all

lemma retained_concat:
  "retained as = concat (map (\<lambda>a. case item a of Some (WithIsrc t) \<Rightarrow> [t] | _ \<Rightarrow> []) as)"
  by (induction as) (simp_all split: option.splits media.splits)

text \<open>
  Claim C4. For an album whose retained track list has \<open>N\<close> entries of which \<open>M\<close>
  downloads fail, the response reports \<open>total_tracks = N\<close>, \<open>failed = M\<close>,
  \<open>downloaded = N - M\<close>, the errors list has exactly \<open>M\<close> entries, one for each failing
  track in order, with its id, its title and the text of its failure, and every track of
  the list is attempted, in order, whatever happened to the tracks before it. The album
  lookup and the listing are taken to have succeeded, and the delay setting to be a number.
\<close>

theorem download_album_aggregation:
  assumes "access_token \<noteq> []"
    and "get_album album_id = Inr album"
    and "fetch_tracks (get_album_items album_id) 0 [] = Some (Inr tracks)"
    and "float_of (getenv env ''TIDAL_TRACK_DELAY'' ''3'') = Some d"
  shows "\<exists>resp trace.
     download_album get_album get_album_items float_of env dl album_id access_token
       = Some (Inr (resp, trace))
     \<and> total_tracks resp = length tracks
     \<and> failed resp = length (filter (\<lambda>(j, t). isl (dl j t)) (enumerate 0 tracks))
     \<and> downloaded resp = length tracks - failed resp
     \<and> length (r_errors resp) = failed resp
     \<and> r_errors resp =
         map (\<lambda>(j, t). \<lparr>tf_track_id = track_id t, tf_title = track_title t, tf_error = projl (dl j t)\<rparr>)
           (filter (\<lambda>(j, t). isl (dl j t)) (enumerate 0 tracks))
     \<and> r_tracks resp =
         map (\<lambda>(j, t). projr (dl j t)) (filter (\<lambda>(j, t). \<not> isl (dl j t)) (enumerate 0 tracks))
     \<and> filter (\<lambda>e. case e of Attempt _ \<Rightarrow> True | Sleep _ \<Rightarrow> False) trace
         = map (\<lambda>t. Attempt (track_id t)) tracks"
proof -
  let ?P = "\<lambda>(j, t). isl (dl j t)"
  have "length (filter ?P (enumerate 0 tracks)) + length (filter (\<lambda>x. \<not> ?P x) (enumerate 0 tracks))
      = length (enumerate 0 tracks)"
    by (rule sum_length_filter_compl)
  moreover have "(\<lambda>x. \<not> ?P x) = (\<lambda>(j, t). \<not> isl (dl j t))"
    by auto
  ultimately have cnt: "length (filter (\<lambda>(j, t). \<not> isl (dl j t)) (enumerate 0 tracks))
      = length tracks - length (filter ?P (enumerate 0 tracks))"
    by simp
  show ?thesis
    using assms(1) cnt
    by (simp add: download_album_def assms(2,3) download_loop_spec [of float_of env d, OF assms(4)] attempts_of_trace)
qed

text \<open>Two retained tracks, the first of which fails.\<close>

theorem download_album_aggregation_witness:
  "\<exists>resp trace.
     download_album (\<lambda>a. Inr \<lparr>album_title = ''LP'', album_artist = None\<rparr>)
       (\<lambda>a l off. Inr \<lparr>items = [\<lparr>item = Some (WithIsrc \<lparr>track_id = 7, track_title = ''one''\<rparr>)\<rparr>,
                                   \<lparr>item = Some NoIsrc\<rparr>,
                                   \<lparr>item = Some (WithIsrc \<lparr>track_id = 8, track_title = ''two''\<rparr>)\<rparr>],
                          limit = 100, totalNumberOfItems = 3\<rparr>)
       (\<lambda>s. if s = ''3'' then Some (3::nat) else None) Map.empty
       (\<lambda>i t. if i = 0 then Inl ''boom'' else Inr (track_title t)) 5 ''tok''
       = Some (Inr (resp, trace))
     \<and> total_tracks resp = 2 \<and> failed resp = 1 \<and> downloaded resp = 1
     \<and> r_errors resp = [\<lparr>tf_track_id = 7, tf_title = ''one'', tf_error = ''boom''\<rparr>]
     \<and> r_tracks resp = [''two'']"
proof -
  let ?ga = "\<lambda>a::int. Inr \<lparr>album_title = ''LP'', album_artist = None\<rparr> :: exn + album"
  let ?gi = "\<lambda>(a::int) (l::int) (off::int).
      Inr \<lparr>items = [\<lparr>item = Some (WithIsrc \<lparr>track_id = 7, track_title = ''one''\<rparr>)\<rparr>,
                      \<lparr>item = Some NoIsrc\<rparr>,
                      \<lparr>item = Some (WithIsrc \<lparr>track_id = 8, track_title = ''two''\<rparr>)\<rparr>],
             limit = 100, totalNumberOfItems = 3\<rparr> :: exn + page"
  let ?fl = "\<lambda>s. if s = ''3'' then Some (3::nat) else None"
  let ?dl = "\<lambda>(i::nat) t. if i = 0 then Inl ''boom'' else Inr (track_title t) :: string + string"
  let ?ts = "[\<lparr>track_id = 7, track_title = ''one''\<rparr>, \<lparr>track_id = 8, track_title = ''two''\<rparr>]"
  have h1: "''tok'' \<noteq> []" by simp
  have h2: "?ga 5 = Inr \<lparr>album_title = ''LP'', album_artist = None\<rparr>" by simp
  have h3: "fetch_tracks (?gi 5) 0 [] = Some (Inr ?ts)"
    by (subst fetch_tracks.simps) simp
  have h4: "?fl (getenv Map.empty ''TIDAL_TRACK_DELAY'' ''3'') = Some 3"
    by (simp add: getenv_def)
  show ?thesis
    using download_album_aggregation [of "''tok''" ?ga 5 _ ?gi ?ts ?fl Map.empty 3 ?dl, OF h1 h2 h3 h4]
    by (auto simp: enumerate_eq_zip upt_rec)
qed

text \<open>
  Claim C8. When the platform answers every listing request with the batch size 100 and
  the total \<open>n\<close>, the listing is requested at the offsets 0, 100, 200, ... until the
  offset reaches \<open>n\<close> (once at least); the tracks kept are the items of these pages
  that have an ISRC-carrying item, in order; and the events of the download loop are the
  attempt of the first track, then for each further track the sleep of the configured
  delay followed by its attempt. The delay is \<open>TIDAL_TRACK_DELAY\<close> read as a number,
  the text \<open>3\<close> when the variable is not set.
\<close>

theorem download_album_orchestration:
  assumes "access_token \<noteq> []"
    and "get_album album_id = Inr album"
    and pg: "\<And>off. get_album_items album_id 100 off = Inr (pg off)"
    and lim: "\<And>off. limit (pg off) = 100"
    and tot: "\<And>off. totalNumberOfItems (pg off) = n"
    and fl: "float_of (getenv env ''TIDAL_TRACK_DELAY'' ''3'') = Some d"
  shows "\<exists>resp trace tracks.
     download_album get_album get_album_items float_of env dl album_id access_token
       = Some (Inr (resp, trace))
     \<and> tracks = concat (map (\<lambda>k. concat (map (\<lambda>a. case item a of Some (WithIsrc t) \<Rightarrow> [t] | _ \<Rightarrow> [])
                                   (items (pg (100 * int k)))))
                  [0..<max 1 (nat ((n + 99) div 100))])
     \<and> total_tracks resp = length tracks
     \<and> trace = (case tracks of
                  [] \<Rightarrow> []
                | t # ts \<Rightarrow> Attempt (track_id t) # concat (map (\<lambda>t. [Sleep d, Attempt (track_id t)]) ts))
     \<and> getenv Map.empty ''TIDAL_TRACK_DELAY'' ''3'' = ''3''"
proof -
  let ?K = "max 1 (nat ((n + 99) div 100))"
  let ?tracks = "concat (map (\<lambda>k. retained (items (pg (100 * int k)))) [0..<?K])"
  have K1: "100 * int ?K \<ge> n" by (simp add: max_def) linarith
  have K2: "100 * (int ?K - 1) < n" if "?K > 1"
    using that by (simp add: max_def split: if_splits) linarith
  have "fetch_tracks (get_album_items album_id) (100 * int 0) []
      = Some (Inr ([] @ ?tracks))"
  proof (rule fetch_tracks_pages [where L = 100 and n = n and pg = pg])
    show "get_album_items album_id 100 off = Inr (pg off)" for off by (rule pg)
    show "limit (pg off) = 100" for off by (rule lim)
    show "totalNumberOfItems (pg off) = n" for off by (rule tot)
    show "n \<le> 100 * int ?K" by (rule K1)
    show "100 * (int ?K - 1) < n" if "1 < ?K" using that by (rule K2)
  qed simp_all
  then have ft: "fetch_tracks (get_album_items album_id) 0 [] = Some (Inr ?tracks)"
    by simp
  have tr: "concat (map (\<lambda>(j, t). (if j > 0 then [Sleep d] else []) @ [Attempt (track_id t)]) (enumerate 0 ts))
      = (case ts of [] \<Rightarrow> []
         | t # ts' \<Rightarrow> Attempt (track_id t) # concat (map (\<lambda>t. [Sleep d, Attempt (track_id t)]) ts'))"
    for ts :: "track list"
    by (cases ts) (simp_all add: trace_after_first)
  show ?thesis
    using assms(1)
    by (simp add: download_album_def assms(2) ft download_loop_spec [of float_of env d, OF fl] tr
        getenv_def retained_concat)
qed

text \<open>A listing of 150 items in two pages, with two tracks among the items shown.\<close>

theorem download_album_orchestration_witness:
  "\<exists>resp trace.
     download_album (\<lambda>a. Inr \<lparr>album_title = ''LP'', album_artist = Some ''X''\<rparr>)
       (\<lambda>a l off. Inr \<lparr>items = (if off = 0
                                   then [\<lparr>item = Some (WithIsrc \<lparr>track_id = 7, track_title = ''one''\<rparr>)\<rparr>,
                                         \<lparr>item = None\<rparr>]
                                   else [\<lparr>item = Some NoIsrc\<rparr>,
                                         \<lparr>item = Some (WithIsrc \<lparr>track_id = 8, track_title = ''two''\<rparr>)\<rparr>]),
                          limit = 100, totalNumberOfItems = 150\<rparr>)
       (\<lambda>s. if s = ''3'' then Some (3::nat) else None) Map.empty
       (\<lambda>i t. Inr (track_title t)) 5 ''tok''
       = Some (Inr (resp, trace))
     \<and> total_tracks resp = 2
     \<and> trace = [Attempt 7, Sleep 3, Attempt 8]"
proof -
  let ?ga = "\<lambda>a::int. Inr \<lparr>album_title = ''LP'', album_artist = Some ''X''\<rparr> :: exn + album"
  let ?pg = "\<lambda>off::int.
      \<lparr>items = (if off = 0
                 then [\<lparr>item = Some (WithIsrc \<lparr>track_id = 7, track_title = ''one''\<rparr>)\<rparr>,
                       \<lparr>item = None\<rparr>]
                 else [\<lparr>item = Some NoIsrc\<rparr>,
                       \<lparr>item = Some (WithIsrc \<lparr>track_id = 8, track_title = ''two''\<rparr>)\<rparr>]),
        limit = 100, totalNumberOfItems = 150\<rparr>"
  let ?gi = "\<lambda>(a::int) (l::int) off. Inr (?pg off) :: exn + page"
  let ?fl = "\<lambda>s. if s = ''3'' then Some (3::nat) else None"
  let ?dl = "\<lambda>(i::nat) t. Inr (track_title t) :: string + string"
  have h1: "''tok'' \<noteq> []" by simp
  have h2: "?ga 5 = Inr \<lparr>album_title = ''LP'', album_artist = Some ''X''\<rparr>" by simp
  have h3: "?gi 5 100 off = Inr (?pg off)" for off by simp
  have h4: "limit (?pg off) = 100" for off by simp
  have h5: "totalNumberOfItems (?pg off) = 150" for off by simp
  have h6: "?fl (getenv Map.empty ''TIDAL_TRACK_DELAY'' ''3'') = Some 3"
    by (simp add: getenv_def)
  show ?thesis
    using download_album_orchestration [of "''tok''" ?ga 5 _ ?gi ?pg 150 ?fl Map.empty 3 ?dl,
        OF h1 h2 h3 h4 h5 h6]
    by (auto simp: upt_rec)
qed



subsection \<open>Quality and format selector\<close>

lemma format_selector_some:
  "format_selector q = Some (dict_get (map_of format_map q) ''ba[abr<=256]/ba'')"
  by (simp add: format_selector_def format_map_def)

text \<open>
  Claim C7. The mapping from quality to format selector is a total function: \<open>LOW\<close> gives
  \<open>ba[abr<=64]/worstaudio/ba\<close> (best audio up to 64 kbps, else the worst audio),
  \<open>MEDIUM\<close> gives \<open>ba[abr<=128]/ba[abr<=192]/ba\<close> (up to 128, else up to 192, else
  best), \<open>HIGH\<close> gives \<open>ba[abr<=256]/ba\<close> (up to 256, else best), \<open>LOSSLESS\<close> gives
  \<open>ba/bestaudio\<close> (best audio, no ceiling), every other quality string gives the selector
  of \<open>HIGH\<close>, and the selector of the quality is what a resolution passes to the extractor.
\<close>

theorem format_selector_total:
  "format_selector ''LOW'' = Some ''ba[abr<=64]/worstaudio/ba''
   \<and> format_selector ''MEDIUM'' = Some ''ba[abr<=128]/ba[abr<=192]/ba''
   \<and> format_selector ''HIGH'' = Some ''ba[abr<=256]/ba''
   \<and> format_selector ''LOSSLESS'' = Some ''ba/bestaudio''
   \<and> (\<forall>q. q \<notin> set [''LOW'', ''MEDIUM'', ''HIGH'', ''LOSSLESS'']
          \<longrightarrow> format_selector q = format_selector ''HIGH'')
   \<and> (\<forall>q. \<exists>f. format_selector q = Some f
          \<and> extractions (snd (resolve_stream ydl resolved_at s user_id video_id q))
              = extractions s @ [(f, ''https://music.youtube.com/watch?v='' @ video_id)])"
proof -
  have a: "format_selector ''LOW'' = Some ''ba[abr<=64]/worstaudio/ba''"
    by (simp add: format_selector_def format_map_def dict_get_def)
  have b: "format_selector ''MEDIUM'' = Some ''ba[abr<=128]/ba[abr<=192]/ba''"
    by (simp add: format_selector_def format_map_def dict_get_def)
  have c: "format_selector ''HIGH'' = Some ''ba[abr<=256]/ba''"
    by (simp add: format_selector_def format_map_def dict_get_def)
  have d: "format_selector ''LOSSLESS'' = Some ''ba/bestaudio''"
    by (simp add: format_selector_def format_map_def dict_get_def)
  have e: "format_selector q = format_selector ''HIGH''"
    if "q \<notin> set [''LOW'', ''MEDIUM'', ''HIGH'', ''LOSSLESS'']" for q
    using that by (simp add: format_selector_def format_map_def dict_get_def)
  have f: "extractions (snd (resolve_stream ydl resolved_at s user_id video_id q))
      = extractions s @ [(dict_get (map_of format_map q) ''ba[abr<=256]/ba'',
                          ''https://music.youtube.com/watch?v='' @ video_id)]" for q
    by (simp add: resolve_stream_def format_selector_some Let_def
        split: ydl_outcome.splits option.splits)
  show ?thesis
    using a b c d e f format_selector_some by blast
qed

text \<open>
  The quality \<open>high\<close> in lower case is not one of the four names.
\<close>

theorem format_selector_total_witness:
  "format_selector ''high'' = Some ''ba[abr<=256]/ba''"
  using format_selector_total [of "\<lambda>f u. YdlRaised []" 0
      "\<lparr>data_files = Map.empty, ytmusic_instances = Map.empty, stream_cache = Map.empty,
        built = 0, extractions = []\<rparr>" "[]" "[]"]
  by simp

subsection \<open>Device-code poll\<close>

text \<open>
  Claim C3. A token exchange that reports the error \<open>authorization_pending\<close> or
  \<open>slow_down\<close> is answered with status \<open>pending\<close> and that code; one that reports
  \<open>invalid_grant\<close> with status \<open>error\<close> and the fixed message of the table; one that
  reports a code that is neither pending nor in the table with the generic message
  \<open>Authorization failed (<code>). Please try again.\<close>. When the call raises, the lowercased
  text of the failure is searched for \<open>authorization_pending\<close> and then for the keys of the
  same table in order, and a failure that matches none of them is answered with HTTP 500.
  In none of these cases does the state change.
\<close>

theorem device_code_poll_errors:
  "(map_of token ''error'' = Some error \<and> error \<in> set [''authorization_pending'', ''slow_down'']
      \<longrightarrow> auth_device_code_poll lib (TokenReturned token) s user_id cid csec
          = (Inr [(''status'', ''pending''), (''error'', error)], s))
   \<and> (map_of token ''error'' = Some ''invalid_grant''
      \<longrightarrow> auth_device_code_poll lib (TokenReturned token) s user_id cid csec
          = (Inr [(''status'', ''error''),
                  (''error'', ''The sign-in code has expired or was already used. Please start over.'')], s))
   \<and> (map_of token ''error'' = Some error
        \<and> error \<notin> set [''authorization_pending'', ''slow_down'']
        \<and> error \<notin> set (map fst ERROR_MESSAGES)
      \<longrightarrow> auth_device_code_poll lib (TokenReturned token) s user_id cid csec
          = (Inr [(''status'', ''error''),
                  (''error'', ''Authorization failed ('' @ error @ ''). Please try again.'')], s))
   \<and> auth_device_code_poll lib (TokenRaised e) s user_id cid csec
       = (if sublist ''authorization_pending'' (str_lower e)
          then (Inr [(''status'', ''pending''), (''error'', ''authorization_pending'')], s)
          else (case find (\<lambda>(k, m). sublist k (str_lower e)) ERROR_MESSAGES of
                  Some (k, m) \<Rightarrow> (Inr [(''status'', ''error''), (''error'', m)], s)
                | None \<Rightarrow> (Inl (HTTPException 500 (''Failed to poll device code: '' @ e)), s)))
   \<and> ((\<forall>k \<in> set (''authorization_pending'' # map fst ERROR_MESSAGES). \<not> sublist k (str_lower e))
      \<longrightarrow> auth_device_code_poll lib (TokenRaised e) s user_id cid csec
          = (Inl (HTTPException 500 (''Failed to poll device code: '' @ e)), s))"
proof -
  have none: "find (\<lambda>(k, m). sublist k (str_lower e)) ERROR_MESSAGES = None"
    if "\<forall>k \<in> set (''authorization_pending'' # map fst ERROR_MESSAGES). \<not> sublist k (str_lower e)"
    using that by (auto simp: find_None_iff)
  have unknown: "map_of ERROR_MESSAGES error = None" if "error \<notin> set (map fst ERROR_MESSAGES)"
    using that by (simp add: map_of_eq_None_iff)
  show ?thesis
    apply (intro conjI impI)
    subgoal by (simp add: auth_device_code_poll_def)
    subgoal by (simp add: auth_device_code_poll_def ERROR_MESSAGES_def dict_get_def)
    subgoal by (simp add: auth_device_code_poll_def unknown dict_get_def)
    subgoal by (simp add: auth_device_code_poll_def Let_def)
    subgoal using none by (simp add: auth_device_code_poll_def Let_def)
    done
qed

text \<open>
  The five kinds of outcome at concrete inputs.
\<close>

theorem device_code_poll_errors_witness:
  "auth_device_code_poll sample_lib (TokenReturned [(''error'', ''slow_down'')]) sample_state ''u'' ''id'' ''secret''
     = (Inr [(''status'', ''pending''), (''error'', ''slow_down'')], sample_state)
   \<and> auth_device_code_poll sample_lib (TokenReturned [(''error'', ''invalid_grant'')]) sample_state ''u'' ''id'' ''secret''
     = (Inr [(''status'', ''error''),
             (''error'', ''The sign-in code has expired or was already used. Please start over.'')], sample_state)
   \<and> auth_device_code_poll sample_lib (TokenReturned [(''error'', ''boom'')]) sample_state ''u'' ''id'' ''secret''
     = (Inr [(''status'', ''error''), (''error'', ''Authorization failed (boom). Please try again.'')], sample_state)
   \<and> auth_device_code_poll sample_lib (TokenRaised ''Bad: Invalid_Grant'') sample_state ''u'' ''id'' ''secret''
     = (Inr [(''status'', ''error''),
             (''error'', ''The sign-in code has expired or was already used. Please start over.'')], sample_state)
   \<and> auth_device_code_poll sample_lib (TokenRaised ''timeout'') sample_state ''u'' ''id'' ''secret''
     = (Inl (HTTPException 500 ''Failed to poll device code: timeout''), sample_state)"
proof -
  have l1: "str_lower ''Bad: Invalid_Grant'' = ''bad: invalid_grant''"
    by (simp add: str_lower_def lower_char_def dict_get_def)
  have l2: "str_lower ''timeout'' = ''timeout''"
    by (simp add: str_lower_def lower_char_def dict_get_def)
  have a: "auth_device_code_poll sample_lib (TokenReturned [(''error'', ''slow_down'')]) sample_state ''u'' ''id'' ''secret''
     = (Inr [(''status'', ''pending''), (''error'', ''slow_down'')], sample_state)"
    using device_code_poll_errors [of "[(''error'', ''slow_down'')]" "''slow_down''" sample_lib sample_state "''u''" "''id''" "''secret''"]
    by simp
  have b: "auth_device_code_poll sample_lib (TokenReturned [(''error'', ''invalid_grant'')]) sample_state ''u'' ''id'' ''secret''
     = (Inr [(''status'', ''error''),
             (''error'', ''The sign-in code has expired or was already used. Please start over.'')], sample_state)"
    using device_code_poll_errors [of "[(''error'', ''invalid_grant'')]" "''invalid_grant''" sample_lib sample_state "''u''" "''id''" "''secret''"]
    by simp
  have c: "auth_device_code_poll sample_lib (TokenReturned [(''error'', ''boom'')]) sample_state ''u'' ''id'' ''secret''
     = (Inr [(''status'', ''error''), (''error'', ''Authorization failed (boom). Please try again.'')], sample_state)"
    using device_code_poll_errors [of "[(''error'', ''boom'')]" "''boom''" sample_lib sample_state "''u''" "''id''" "''secret''"]
    by (simp add: ERROR_MESSAGES_def)
  have d: "auth_device_code_poll sample_lib (TokenRaised ''Bad: Invalid_Grant'') sample_state ''u'' ''id'' ''secret''
     = (Inr [(''status'', ''error''),
             (''error'', ''The sign-in code has expired or was already used. Please start over.'')], sample_state)"
    using device_code_poll_errors [of "[]" "[]" sample_lib sample_state "''u''" "''id''" "''secret''" "''Bad: Invalid_Grant''"]
    by (simp add: l1 ERROR_MESSAGES_def sublist_code prefix_code)
  have e: "auth_device_code_poll sample_lib (TokenRaised ''timeout'') sample_state ''u'' ''id'' ''secret''
     = (Inl (HTTPException 500 ''Failed to poll device code: timeout''), sample_state)"
    using device_code_poll_errors [of "[]" "[]" sample_lib sample_state "''u''" "''id''" "''secret''" "''timeout''"]
    by (simp add: l2 ERROR_MESSAGES_def sublist_code prefix_code)
  show ?thesis using a b c d e by blast
qed

subsection \<open>Stream cache\<close>

lemma resolve_stream_extractions:
  "extractions (snd (resolve_stream ydl resolved_at s user_id video_id q))
     = extractions s @ [(dict_get (map_of format_map q) ''ba[abr<=256]/ba'',
                         ''https://music.youtube.com/watch?v='' @ video_id)]"
  by (simp add: resolve_stream_def format_selector_some Let_def
      split: ydl_outcome.splits option.splits)

lemma resolve_stream_Inr:
  assumes "resolve_stream ydl resolved_at s user_id video_id q = (Inr e, s')"
  shows "se_expires_at e = resolved_at + STREAM_CACHE_TTL"
    and "stream_cache s' = (stream_cache s)(cache_key_of user_id video_id \<mapsto> e)"
  using assms
  by (auto simp: resolve_stream_def format_selector_some Let_def
      split: ydl_outcome.splits option.splits if_splits)

lemma resolve_stream_Inl:
  assumes "resolve_stream ydl resolved_at s user_id video_id q = (Inl err, s')"
  shows "stream_cache s' = stream_cache s" and "\<exists>d. err = extract_failed d"
  using assms
  by (auto simp: resolve_stream_def format_selector_some Let_def
      split: ydl_outcome.splits option.splits if_splits)

text \<open>
  Claim C5. An entry resolved at time \<open>T\<close> has the expiry \<open>T + 18000\<close> and is stored under
  its key; a lookup at any time before the expiry, such as \<open>T + 17999\<close>, returns this
  entry and leaves the state as it is, whatever the quality asked and whatever the
  extractor would do; a lookup at the expiry or after it, such as \<open>T + 18001\<close>, is a
  resolution, which calls the extractor once more.
\<close>

theorem stream_cache_ttl:
  assumes "resolve_stream ydl T s user_id video_id q = (Inr e, s')"
  shows "se_expires_at e = T + 18000
     \<and> stream_cache s' (cache_key_of user_id video_id) = Some e
     \<and> (\<forall>now. now < T + 18000 \<longrightarrow>
           get_stream_url_sync ydl' now T' s' user_id video_id q' = (Inr e, s'))
     \<and> get_stream_url_sync ydl' (T + 17999) T' s' user_id video_id q' = (Inr e, s')
     \<and> (\<forall>now. now \<ge> T + 18000 \<longrightarrow>
           get_stream_url_sync ydl' now T' s' user_id video_id q'
             = resolve_stream ydl' T' s' user_id video_id q')
     \<and> get_stream_url_sync ydl' (T + 18001) T' s' user_id video_id q'
         = resolve_stream ydl' T' s' user_id video_id q'
     \<and> length (extractions (snd (resolve_stream ydl' T' s' user_id video_id q')))
         = Suc (length (extractions s'))"
  using resolve_stream_Inr [OF assms]
  by (simp add: get_stream_url_sync_def STREAM_CACHE_TTL_def resolve_stream_extractions)

text \<open>
  An entry resolved at time 1000, looked up at 18999 and at 19001 with an extractor that fails.
\<close>

theorem stream_cache_ttl_witness:
  "\<exists>e s'. resolve_stream sample_ydl 1000 sample_state ''u'' ''w'' ''HIGH'' = (Inr e, s')
     \<and> se_expires_at e = 19000 \<and> se_url e = ''https://cdn/new''
     \<and> get_stream_url_sync failing_ydl 18999 18999 s' ''u'' ''w'' ''LOW'' = (Inr e, s')
     \<and> fst (get_stream_url_sync failing_ydl 19001 19001 s' ''u'' ''w'' ''LOW'')
         = Inl (HTTPException 502 ''Failed to extract stream: network unreachable'')"
proof -
  have "\<exists>e s'. resolve_stream sample_ydl 1000 sample_state ''u'' ''w'' ''HIGH'' = (Inr e, s')
      \<and> se_url e = ''https://cdn/new''"
    by (simp add: resolve_stream_def format_selector_some sample_ydl_def sample_info_def
        nonempty_def Let_def dict_get_def)
  then obtain e s' where h: "resolve_stream sample_ydl 1000 sample_state ''u'' ''w'' ''HIGH'' = (Inr e, s')"
    and u: "se_url e = ''https://cdn/new''" by blast
  have f: "fst (resolve_stream failing_ydl 19001 s' ''u'' ''w'' ''LOW'')
      = Inl (HTTPException 502 ''Failed to extract stream: network unreachable'')"
    by (simp add: resolve_stream_def format_selector_some failing_ydl_def Let_def extract_failed_def)
  show ?thesis
    using stream_cache_ttl [OF h, of failing_ydl 18999 "''LOW''"]
      stream_cache_ttl [OF h, of failing_ydl 19001 "''LOW''"] h u f
    by simp
qed

text \<open>
  Claim C10. When \<open>_get_stream_url_sync\<close> fails, the failure is a 502 of the extraction,
  the extractor has been called once, and the stream cache is what it was: no entry has
  been created or changed. A later request for the same user and video, at the same time
  or later, is a resolution again and calls the extractor again.
\<close>

theorem stream_failure_leaves_cache:
  assumes "get_stream_url_sync ydl now T s user_id video_id q = (Inl err, s')"
  shows "stream_cache s' = stream_cache s
     \<and> (\<exists>d. err = HTTPException 502 (''Failed to extract stream: '' @ d))
     \<and> length (extractions s') = Suc (length (extractions s))
     \<and> (\<forall>now'. now' \<ge> now \<longrightarrow>
           get_stream_url_sync ydl' now' T' s' user_id video_id q'
             = resolve_stream ydl' T' s' user_id video_id q')
     \<and> length (extractions (snd (resolve_stream ydl' T' s' user_id video_id q')))
         = Suc (length (extractions s'))"
proof -
  have miss: "resolve_stream ydl T s user_id video_id q = (Inl err, s')"
    and old: "\<forall>c. stream_cache s (cache_key_of user_id video_id) = Some c \<longrightarrow> \<not> se_expires_at c > now"
    using assms by (auto simp: get_stream_url_sync_def split: option.splits if_splits)
  note r = resolve_stream_Inl [OF miss]
  have ex: "length (extractions s') = Suc (length (extractions s))"
    using resolve_stream_extractions [of ydl T s user_id video_id q] miss by simp
  have again: "get_stream_url_sync ydl' now' T' s' user_id video_id q'
      = resolve_stream ydl' T' s' user_id video_id q'" if "now' \<ge> now" for now'
    using old that r(1) by (auto simp: get_stream_url_sync_def split: option.splits)
  show ?thesis
    using r ex again by (simp add: extract_failed_def resolve_stream_extractions)
qed

text \<open>
  The cached entry of the sample state has expired at time 150 and the extractor raises.
\<close>

theorem stream_failure_leaves_cache_witness:
  "\<exists>err s'. get_stream_url_sync failing_ydl 150 150 sample_state ''u'' ''v'' ''HIGH'' = (Inl err, s')
     \<and> stream_cache s' = stream_cache sample_state
     \<and> err = HTTPException 502 ''Failed to extract stream: network unreachable''
     \<and> length (extractions (snd (get_stream_url_sync sample_ydl 160 160 s' ''u'' ''v'' ''HIGH''))) = 2"
proof -
  have "\<exists>s'. get_stream_url_sync failing_ydl 150 150 sample_state ''u'' ''v'' ''HIGH''
      = (Inl (HTTPException 502 ''Failed to extract stream: network unreachable''), s')
      \<and> extractions s' = [(''ba[abr<=256]/ba'', ''https://music.youtube.com/watch?v=v'')]"
    by (simp add: get_stream_url_sync_def resolve_stream_def format_selector_some failing_ydl_def
        Let_def extract_failed_def sample_state_def sample_entry_def cache_key_of_def dict_get_def
        format_map_def)
  then obtain s' where h: "get_stream_url_sync failing_ydl 150 150 sample_state ''u'' ''v'' ''HIGH''
      = (Inl (HTTPException 502 ''Failed to extract stream: network unreachable''), s')"
    and x: "extractions s' = [(''ba[abr<=256]/ba'', ''https://music.youtube.com/watch?v=v'')]"
    by blast
  show ?thesis
    using stream_failure_leaves_cache [OF h, of sample_ydl 160 "''HIGH''"] h x
    by simp
qed

subsection \<open>Credential changes\<close>

lemma oauth_file_neq_creds: "oauth_file u \<noteq> client_creds_file w"
  by (simp add: oauth_file_def client_creds_file_def)

lemma auth_clear_state:
  "ytmusic_instances (snd (auth_clear s u)) = (ytmusic_instances s)(u := None)"
  "stream_cache (snd (auth_clear s u)) = stream_cache s"
  "built (snd (auth_clear s u)) = built s"
  "data_files (snd (auth_clear s u)) (oauth_file u) = None"
  by (simp_all add: auth_clear_def invalidate_ytmusic_def Let_def oauth_file_neq_creds)

lemma auth_restore_state:
  assumes "auth_restore lib s u body = (Inr ok, s1)"
  shows "ytmusic_instances s1 = (ytmusic_instances s)(u := None)"
    and "stream_cache s1 = stream_cache s"
    and "built s1 = built s"
    and "\<exists>text. oauth_json body = Some text \<and> data_files s1 (oauth_file u) = Some text"
  using assms
  by (auto simp: auth_restore_def invalidate_ytmusic_def Let_def oauth_file_neq_creds
      split: option.splits if_splits)

lemma get_ytmusic_uncached:
  assumes "ytmusic_instances s u = None"
  shows "case get_ytmusic lib s u of
           (Inl e, s2) \<Rightarrow> (\<exists>d. e = HTTPException 401 d) \<and> s2 = s
         | (Inr yt, s2) \<Rightarrow>
             yt_serial yt = built s \<and> built s2 = Suc (built s)
             \<and> data_files s (oauth_file u) = Some (yt_oauth yt)
             \<and> ytmusic_instances s2 = (ytmusic_instances s)(u \<mapsto> yt)"
  using assms
  by (auto simp: get_ytmusic_def oauth_invalid_def Let_def split: option.splits)

text \<open>
  Claim C9. After \<open>auth_clear\<close> for a user, or an \<open>auth_restore\<close> for that user that was
  accepted, the handle cache has no handle for the user. The next \<open>_get_ytmusic\<close> for the
  user therefore either fails with 401 and changes nothing, or constructs a handle: the
  count of constructions goes up by one, the handle is built from the credential file as it
  is on disk, and it is none of the handles cached before (given that those were built by
  earlier constructions). A catalog call that is served is served on such a new handle.
\<close>

theorem handle_rebuilt_after_credential_change:
  assumes "s1 = snd (auth_clear s u) \<or> auth_restore lib s u body = (Inr ok, s1)"
  shows "ytmusic_instances s1 u = None
     \<and> built s1 = built s
     \<and> (case get_ytmusic lib s1 u of
           (Inl e, s2) \<Rightarrow> (\<exists>d. e = HTTPException 401 d) \<and> s2 = s1
         | (Inr yt, s2) \<Rightarrow>
             yt_serial yt = built s \<and> built s2 = Suc (built s)
             \<and> data_files s1 (oauth_file u) = Some (yt_oauth yt)
             \<and> ytmusic_instances s2 u = Some yt
             \<and> ((\<forall>w h. ytmusic_instances s w = Some h \<longrightarrow> yt_serial h < built s)
                  \<longrightarrow> yt \<notin> ran (ytmusic_instances s)))
     \<and> (case catalog_call lib operation s1 u of
           (Inl e, s2) \<Rightarrow> built s2 = built s \<or> built s2 = Suc (built s)
         | (Inr r, s2) \<Rightarrow>
             built s2 = Suc (built s)
             \<and> (\<exists>yt. yt_serial yt = built s \<and> operation yt = Inr r
                    \<and> data_files s1 (oauth_file u) = Some (yt_oauth yt)))"
proof -
  have a: "ytmusic_instances s1 u = None" and b: "built s1 = built s"
    using assms auth_clear_state(1,3) [of s u] auth_restore_state(1,3) [of lib s u body ok s1]
    by auto
  note g = get_ytmusic_uncached [OF a, of lib]
  have c: "case get_ytmusic lib s1 u of
           (Inl e, s2) \<Rightarrow> (\<exists>d. e = HTTPException 401 d) \<and> s2 = s1
         | (Inr yt, s2) \<Rightarrow>
             yt_serial yt = built s \<and> built s2 = Suc (built s)
             \<and> data_files s1 (oauth_file u) = Some (yt_oauth yt)
             \<and> ytmusic_instances s2 u = Some yt
             \<and> ((\<forall>w h. ytmusic_instances s w = Some h \<longrightarrow> yt_serial h < built s)
                  \<longrightarrow> yt \<notin> ran (ytmusic_instances s))"
    using g b by (fastforce simp: ran_def split: prod.splits sum.splits)
  have d: "case catalog_call lib operation s1 u of
           (Inl e, s2) \<Rightarrow> built s2 = built s \<or> built s2 = Suc (built s)
         | (Inr r, s2) \<Rightarrow>
             built s2 = Suc (built s)
             \<and> (\<exists>yt. yt_serial yt = built s \<and> operation yt = Inr r
                    \<and> data_files s1 (oauth_file u) = Some (yt_oauth yt))"
    using g b by (auto simp: catalog_call_def split: prod.splits sum.splits)
  show ?thesis using a b c d by blast
qed

text \<open>
  Restoring credentials for user \<open>u\<close> of the sample state, who had a cached handle.
\<close>

theorem handle_rebuilt_after_credential_change_witness:
  "\<exists>yt s2. get_ytmusic sample_lib (snd (auth_restore sample_lib sample_state ''u'' sample_body)) ''u''
       = (Inr yt, s2)
     \<and> yt_serial yt = 1 \<and> yt_oauth yt = ''{new}'' \<and> built s2 = 2
     \<and> yt \<notin> ran (ytmusic_instances sample_state)"
proof -
  let ?r = "auth_restore sample_lib sample_state ''u'' sample_body"
  have h: "?r = (Inr [(''status'', ''ok''), (''message'', ''OAuth credentials restored'')], snd ?r)"
    by (simp add: auth_restore_def sample_lib_def sample_body_def Let_def nonempty_def)
  have f: "data_files (snd ?r) (oauth_file ''u'') = Some ''{new}''"
    by (simp add: auth_restore_def sample_lib_def sample_body_def Let_def nonempty_def
        invalidate_ytmusic_def)
  have inv: "\<forall>w h. ytmusic_instances sample_state w = Some h \<longrightarrow> yt_serial h < built sample_state"
    by (auto simp: sample_state_def split: if_splits)
  have g: "\<exists>yt s2. get_ytmusic sample_lib (snd ?r) ''u'' = (Inr yt, s2)"
    by (simp add: get_ytmusic_def auth_restore_def sample_lib_def sample_body_def Let_def
        nonempty_def invalidate_ytmusic_def sample_state_def client_creds_file_def oauth_file_def)
  then obtain yt s2 where g': "get_ytmusic sample_lib (snd ?r) ''u'' = (Inr yt, s2)"
    by blast
  have b: "built sample_state = 1" by (simp add: sample_state_def)
  show ?thesis
    using handle_rebuilt_after_credential_change
      [of "snd ?r" sample_state "''u''" sample_lib sample_body
          "[(''status'', ''ok''), (''message'', ''OAuth credentials restored'')]"
          "\<lambda>yt. Inr yt :: string + ytmusic", OF disjI2 [OF h]]
      g' f inv b
    by auto
qed

lemma get_ytmusic_stream_cache:
  "stream_cache (snd (get_ytmusic lib s u)) = stream_cache s"
  by (simp add: get_ytmusic_def Let_def split: option.splits)

lemma get_stream_info_cached:
  assumes "stream_cache s (cache_key_of u v) = Some c" and "now < se_expires_at c"
  shows "get_stream_info lib ydl now T s v u q =
     (case get_ytmusic lib s u of (Inl e, s2) \<Rightarrow> (Inl e, s2) | (Inr yt, s2) \<Rightarrow> (Inr c, s2))"
proof (cases "get_ytmusic lib s u")
  case (Pair r s2)
  then have "stream_cache s2 = stream_cache s"
    using get_ytmusic_stream_cache [of lib s u] by simp
  with assms Pair show ?thesis
    by (cases r) (simp_all add: get_stream_info_def get_stream_url_sync_def)
qed

lemma get_stream_info_cleared:
  "get_stream_info lib ydl now T (snd (auth_clear s u)) v u q =
     (Inl (HTTPException 401 ''Not authenticated. Please set up OAuth first.''), snd (auth_clear s u))"
  using auth_clear_state(1,4) [of s u]
  by (simp add: get_stream_info_def get_ytmusic_def)

lemma poll_success_only:
  assumes "auth_device_code_poll lib outcome s u cid csec
     = (Inr [(''status'', ''success''), (''oauth_json'', j)], s3)"
  shows "ytmusic_instances s3 = (ytmusic_instances s)(u := None)"
    and "stream_cache s3 = stream_cache s"
    and "data_files s3 (oauth_file u) = Some j"
  using assms
  by (auto simp: auth_device_code_poll_def invalidate_ytmusic_def Let_def oauth_file_neq_creds
      split: token_outcome.splits option.splits if_splits prod.splits)

text \<open>
  Claim C1 (as amended). A credential change for a user (an accepted \<open>auth_restore\<close>, a
  device-code poll answered with status \<open>success\<close>, an \<open>auth_clear\<close>) removes that user's
  handle from the handle cache and changes no other handle, and it leaves the stream cache
  as it is. After an accepted restore or a successful poll, the route \<open>get_stream_info\<close>
  for an entry of that user that has not expired answers with the cached entry once a
  handle is built from the credential files, and with the 401 of \<open>_get_ytmusic\<close> when none
  can be built. After \<open>auth_clear\<close> the route answers 401 for that user, the entries
  staying in the cache.
\<close>

theorem credential_change_keeps_stream_cache:
  "(auth_restore lib s u body = (Inr ok, s1) \<longrightarrow>
      ytmusic_instances s1 = (ytmusic_instances s)(u := None)
      \<and> stream_cache s1 = stream_cache s
      \<and> (\<forall>c. stream_cache s (cache_key_of u v) = Some c \<and> now < se_expires_at c \<longrightarrow>
            get_stream_info lib ydl now T s1 v u q =
              (case get_ytmusic lib s1 u of
                 (Inl e, s2) \<Rightarrow> (Inl e, s2)
               | (Inr yt, s2) \<Rightarrow> (Inr c, s2))))
   \<and> (auth_device_code_poll lib outcome s u cid csec
        = (Inr [(''status'', ''success''), (''oauth_json'', j)], s3) \<longrightarrow>
      ytmusic_instances s3 = (ytmusic_instances s)(u := None)
      \<and> stream_cache s3 = stream_cache s
      \<and> (\<forall>c. stream_cache s (cache_key_of u v) = Some c \<and> now < se_expires_at c \<longrightarrow>
            get_stream_info lib ydl now T s3 v u q =
              (case get_ytmusic lib s3 u of
                 (Inl e, s2) \<Rightarrow> (Inl e, s2)
               | (Inr yt, s2) \<Rightarrow> (Inr c, s2))))
   \<and> ytmusic_instances (snd (auth_clear s u)) = (ytmusic_instances s)(u := None)
   \<and> stream_cache (snd (auth_clear s u)) = stream_cache s
   \<and> get_stream_info lib ydl now T (snd (auth_clear s u)) v u q =
       (Inl (HTTPException 401 ''Not authenticated. Please set up OAuth first.''),
        snd (auth_clear s u))"
proof -
  have r: "ytmusic_instances s1 = (ytmusic_instances s)(u := None)
      \<and> stream_cache s1 = stream_cache s
      \<and> (\<forall>c. stream_cache s (cache_key_of u v) = Some c \<and> now < se_expires_at c \<longrightarrow>
            get_stream_info lib ydl now T s1 v u q =
              (case get_ytmusic lib s1 u of
                 (Inl e, s2) \<Rightarrow> (Inl e, s2)
               | (Inr yt, s2) \<Rightarrow> (Inr c, s2)))"
    if h: "auth_restore lib s u body = (Inr ok, s1)"
    using auth_restore_state(1,2) [OF h] get_stream_info_cached [of s1 u v _ now lib ydl T q]
    by simp
  have p: "ytmusic_instances s3 = (ytmusic_instances s)(u := None)
      \<and> stream_cache s3 = stream_cache s
      \<and> (\<forall>c. stream_cache s (cache_key_of u v) = Some c \<and> now < se_expires_at c \<longrightarrow>
            get_stream_info lib ydl now T s3 v u q =
              (case get_ytmusic lib s3 u of
                 (Inl e, s2) \<Rightarrow> (Inl e, s2)
               | (Inr yt, s2) \<Rightarrow> (Inr c, s2)))"
    if h: "auth_device_code_poll lib outcome s u cid csec
        = (Inr [(''status'', ''success''), (''oauth_json'', j)], s3)"
    using poll_success_only(1,2) [OF h] get_stream_info_cached [of s3 u v _ now lib ydl T q]
    by simp
  show ?thesis
    using r p auth_clear_state(1,2) [of s u] get_stream_info_cleared [of lib ydl now T s u v q]
    by blast
qed

lemma restore_request_accepted:
  "auth_restore token_lib cached_state ''u'' restore_request
     = (Inr [(''status'', ''ok''), (''message'', ''OAuth credentials restored'')],
        snd (auth_restore token_lib cached_state ''u'' restore_request))"
  by (simp add: auth_restore_def token_lib_def restore_request_def Let_def nonempty_def
      oauth_text_of_def json_str_def)

lemma restore_request_files:
  "data_files (snd (auth_restore token_lib cached_state ''u'' restore_request)) ''oauth_u.json''
     = Some (oauth_text_of ''new'')"
  "data_files (snd (auth_restore token_lib cached_state ''u'' restore_request)) ''client_creds_u.json''
     = Some (creds_json ''id'' ''secret'')"
  "ytmusic_instances (snd (auth_restore token_lib cached_state ''u'' restore_request)) ''u'' = None"
  "stream_cache (snd (auth_restore token_lib cached_state ''u'' restore_request))
     = stream_cache cached_state"
  by (simp_all add: auth_restore_def token_lib_def restore_request_def Let_def nonempty_def
      oauth_text_of_def json_str_def invalidate_ytmusic_def oauth_file_def client_creds_file_def
      dict_get_def cached_state_def)

lemma token_lib_accepts:
  "json_loads_ok token_lib (oauth_text_of ''new'')"
  "creds_of_json token_lib (creds_json ''id'' ''secret'') = Some (''id'', ''secret'')"
  "ytmusic_ok token_lib (oauth_text_of ''new'') (Some (''id'', ''secret''))"
  by (simp_all add: token_lib_def)

lemma restore_request_handle:
  "\<exists>yt s2. get_ytmusic token_lib (snd (auth_restore token_lib cached_state ''u'' restore_request)) ''u''
     = (Inr yt, s2)"
  by (simp add: get_ytmusic_def restore_request_files oauth_file_def client_creds_file_def
      token_lib_accepts Let_def)

text \<open>
  The restore request, the granted token and the clear on the sample state with JSON credentials.
\<close>

theorem credential_change_keeps_stream_cache_witness:
  "ytmusic_instances (snd (auth_restore token_lib cached_state ''u'' restore_request)) ''u'' = None
   \<and> stream_cache (snd (auth_restore token_lib cached_state ''u'' restore_request)) ''u:v''
       = Some cached_entry
   \<and> (\<exists>s2. get_stream_info token_lib failing_ydl 1800000060 1800000060
          (snd (auth_restore token_lib cached_state ''u'' restore_request)) ''v'' ''u'' ''LOW''
        = (Inr cached_entry, s2))
   \<and> fst (auth_device_code_poll token_lib (TokenReturned granted_token) cached_state ''u'' ''id'' ''secret'')
       = Inr [(''status'', ''success''), (''oauth_json'', token_json granted_token)]
   \<and> ytmusic_instances (snd (auth_device_code_poll token_lib (TokenReturned granted_token)
         cached_state ''u'' ''id'' ''secret'')) ''u'' = None
   \<and> stream_cache (snd (auth_device_code_poll token_lib (TokenReturned granted_token)
         cached_state ''u'' ''id'' ''secret'')) ''u:v'' = Some cached_entry
   \<and> fst (get_stream_info token_lib failing_ydl 1800000060 1800000060
          (snd (auth_clear cached_state ''u'')) ''v'' ''u'' ''LOW'')
       = Inl (HTTPException 401 ''Not authenticated. Please set up OAuth first.'')
   \<and> stream_cache (snd (auth_clear cached_state ''u'')) ''u:v'' = Some cached_entry"
proof -
  let ?s1 = "snd (auth_restore token_lib cached_state ''u'' restore_request)"
  let ?p = "auth_device_code_poll token_lib (TokenReturned granted_token) cached_state ''u'' ''id'' ''secret''"
  have hp: "?p = (Inr [(''status'', ''success''), (''oauth_json'', token_json granted_token)], snd ?p)"
    by (simp add: auth_device_code_poll_def granted_token_def Let_def token_lib_def)
  have d0: "stream_cache cached_state (cache_key_of ''u'' ''v'') = Some cached_entry"
    by (simp add: cached_state_def cache_key_of_def)
  have k: "stream_cache cached_state ''u:v'' = Some cached_entry"
    by (simp add: cached_state_def)
  have e: "(1800000060::real) < se_expires_at cached_entry"
    by (simp add: cached_entry_def)
  obtain yt s2 where g: "get_ytmusic token_lib ?s1 ''u'' = (Inr yt, s2)"
    using restore_request_handle by blast
  note t = credential_change_keeps_stream_cache
      [of token_lib cached_state "''u''" restore_request
          "[(''status'', ''ok''), (''message'', ''OAuth credentials restored'')]" ?s1
          "''v''" 1800000060 failing_ydl 1800000060 "''LOW''"
          "TokenReturned granted_token" "''id''" "''secret''" "token_json granted_token" "snd ?p"]
  note R = t [THEN conjunct1, THEN mp, OF restore_request_accepted]
  note P = t [THEN conjunct2, THEN conjunct1, THEN mp, OF hp]
  note C = t [THEN conjunct2, THEN conjunct2]
  have c1: "ytmusic_instances ?s1 ''u'' = None"
    using R [THEN conjunct1] by simp
  have c2: "stream_cache ?s1 ''u:v'' = Some cached_entry"
    using R [THEN conjunct2, THEN conjunct1] k by simp
  have c3: "\<exists>s2. get_stream_info token_lib failing_ydl 1800000060 1800000060 ?s1 ''v'' ''u'' ''LOW''
      = (Inr cached_entry, s2)"
    using R [THEN conjunct2, THEN conjunct2, rule_format, OF conjI [OF d0 e]] g by simp
  have c4: "fst ?p = Inr [(''status'', ''success''), (''oauth_json'', token_json granted_token)]"
    using hp by (metis fst_conv)
  have c5: "ytmusic_instances (snd ?p) ''u'' = None"
    using P [THEN conjunct1] by simp
  have c6: "stream_cache (snd ?p) ''u:v'' = Some cached_entry"
    using P [THEN conjunct2, THEN conjunct1] k by simp
  have c7: "fst (get_stream_info token_lib failing_ydl 1800000060 1800000060
          (snd (auth_clear cached_state ''u'')) ''v'' ''u'' ''LOW'')
       = Inl (HTTPException 401 ''Not authenticated. Please set up OAuth first.'')"
    using C [THEN conjunct2, THEN conjunct2] by simp
  have c8: "stream_cache (snd (auth_clear cached_state ''u'')) ''u:v'' = Some cached_entry"
    using C [THEN conjunct2, THEN conjunct1] k by simp
  show ?thesis
    using c1 c2 c3 c4 c5 c6 c7 c8 by blast
qed

text \<open>
  Claim C1 as the specification words it fails. User \<open>u\<close> has a cached stream entry for
  the video \<open>v\<close>. The restore request is accepted and replaces the token file of \<open>u\<close>.
  A minute after the entry was resolved, the route \<open>get_stream_info\<close> builds a handle from
  the new files and answers with that same cached entry, although the extractor would
  resolve another URL.
\<close>

theorem stale_stream_entry_counterexample:
  "fst (auth_restore token_lib cached_state ''u'' restore_request)
     = Inr [(''status'', ''ok''), (''message'', ''OAuth credentials restored'')]
   \<and> data_files cached_state (oauth_file ''u'') = Some (oauth_text_of ''old'')
   \<and> data_files (snd (auth_restore token_lib cached_state ''u'' restore_request)) (oauth_file ''u'')
     = Some (oauth_text_of ''new'')
   \<and> stream_cache cached_state (cache_key_of ''u'' ''v'') = Some cached_entry
   \<and> fst (get_stream_info token_lib sample_ydl 1800000060 1800000060
            (snd (auth_restore token_lib cached_state ''u'' restore_request)) ''v'' ''u'' ''HIGH'')
     = Inr cached_entry"
proof -
  let ?s1 = "snd (auth_restore token_lib cached_state ''u'' restore_request)"
  have a: "fst (auth_restore token_lib cached_state ''u'' restore_request)
     = Inr [(''status'', ''ok''), (''message'', ''OAuth credentials restored'')]"
    using restore_request_accepted by (metis fst_conv)
  have b: "data_files cached_state (oauth_file ''u'') = Some (oauth_text_of ''old'')"
    by (simp add: cached_state_def oauth_file_def)
  have c: "data_files ?s1 (oauth_file ''u'') = Some (oauth_text_of ''new'')"
    by (simp add: restore_request_files oauth_file_def)
  have d0: "stream_cache cached_state (cache_key_of ''u'' ''v'') = Some cached_entry"
    by (simp add: cached_state_def cache_key_of_def)
  have d: "stream_cache ?s1 (cache_key_of ''u'' ''v'') = Some cached_entry"
    using d0 by (simp only: restore_request_files(4))
  have e: "(1800000060::real) < se_expires_at cached_entry"
    by (simp add: cached_entry_def)
  obtain yt s2 where g: "get_ytmusic token_lib ?s1 ''u'' = (Inr yt, s2)"
    using restore_request_handle by blast
  have "get_stream_info token_lib sample_ydl 1800000060 1800000060 ?s1 ''v'' ''u'' ''HIGH''
      = (Inr cached_entry, s2)"
    using get_stream_info_cached [OF d e, of token_lib sample_ydl 1800000060 "''HIGH''"] g
    by simp
  then show ?thesis using a b c d0 by simp
qed

end
